theory Spec2Isabelle
  imports Complex_Main "HOL-Library.Sublist" "HOL-Library.Char_ord" "HOL-Library.List_Lexorder"
    "HOL-Library.Monad_Syntax"
begin

section \<open>Contact normalization\<close>

text \<open>
  \<^verbatim>\<open>normalizar_telefone\<close> keeps the digits of its argument and then decides on the
  length and on the prefix \<^verbatim>\<open>55\<close>. Python's \<^verbatim>\<open>str.isdigit\<close> is modelled on the
  ASCII digits. The slices \<^verbatim>\<open>s[-13:]\<close> and \<^verbatim>\<open>s[-13:-11]\<close> clamp at the start of the
  string as Python's do.
\<close>

definition isdigit :: "char \<Rightarrow> bool" where
  "isdigit c = (c \<in> set ''0123456789'')"

definition startswith :: "string \<Rightarrow> string \<Rightarrow> bool" where
  "startswith s p = prefix p s"

definition endswith :: "string \<Rightarrow> string \<Rightarrow> bool" where
  "endswith s p = suffix p s"

text \<open>\<^verbatim>\<open>s[-a:]\<close> for a positive \<open>a\<close>.\<close>

definition slice_last :: "nat \<Rightarrow> string \<Rightarrow> string" where
  "slice_last a s = drop (length s - a) s"

text \<open>\<^verbatim>\<open>s[-a:-b]\<close> for positive \<open>a\<close> and \<open>b\<close>.\<close>

definition slice_neg :: "nat \<Rightarrow> nat \<Rightarrow> string \<Rightarrow> string" where
  "slice_neg a b s = take ((length s - b) - (length s - a)) (drop (length s - a) s)"

definition normalizar_telefone :: "string \<Rightarrow> string" where
  "normalizar_telefone telefone =
     (if telefone = [] then telefone
      else
        let telefone_limpo = filter isdigit telefone in
        if startswith telefone_limpo ''55'' \<and> length telefone_limpo = 13 then telefone_limpo
        else if length telefone_limpo = 11 then ''55'' @ telefone_limpo
        else if length telefone_limpo = 13 \<and> \<not> startswith telefone_limpo ''55''
          then telefone_limpo
        else if length telefone_limpo > 13 then
          (if endswith telefone_limpo (slice_last 13 telefone_limpo)
               \<and> slice_neg 13 11 telefone_limpo = ''55''
           then slice_last 13 telefone_limpo
           else telefone_limpo)
        else if length telefone_limpo < 11 then telefone_limpo
        else telefone_limpo)"

section \<open>Binary floating point\<close>

text \<open>
  A Python \<^verbatim>\<open>float\<close> is a binary64 number, modelled by the rational it denotes.
  \<open>to_double\<close> is the conversion of an exact number (an \<^verbatim>\<open>int\<close>, a \<^verbatim>\<open>Decimal\<close>, a
  literal such as \<^verbatim>\<open>0.1\<close>) to the nearest binary64 number, ties to even, with 53
  significant bits down to the exponent -1022 and the fixed spacing of the subnormal
  numbers below it. An operation on floats is the exact operation followed by this
  rounding. Overflow to infinity is not modelled (it needs a magnitude of 2 to the
  1024).
\<close>

text \<open>The number of binary digits of a positive integer.\<close>

function bit_length :: "int \<Rightarrow> nat" where
  "bit_length n = (if n \<le> 0 then 0 else Suc (bit_length (n div 2)))"
  by auto
termination
  by (relation "measure nat") auto

declare bit_length.simps [simp del]

text \<open>The integer part of the logarithm in base 2 of a positive number.\<close>

definition floor_log2 :: "rat \<Rightarrow> int" where
  "floor_log2 x =
     (if x \<ge> 1 then int (bit_length \<lfloor>x\<rfloor>) - 1
      else - int (bit_length (\<lceil>1 / x\<rceil> - 1)))"

definition pow2 :: "int \<Rightarrow> rat" where
  "pow2 k = (if k \<ge> 0 then 2 ^ nat k else 1 / 2 ^ nat (- k))"

definition round_half_even :: "rat \<Rightarrow> int" where
  "round_half_even x =
     (if x - of_int \<lfloor>x\<rfloor> < 1 / 2 then \<lfloor>x\<rfloor>
      else if x - of_int \<lfloor>x\<rfloor> > 1 / 2 then \<lfloor>x\<rfloor> + 1
      else if even \<lfloor>x\<rfloor> then \<lfloor>x\<rfloor> else \<lfloor>x\<rfloor> + 1)"

definition to_double :: "rat \<Rightarrow> rat" where
  "to_double x =
     (if x = 0 then 0
      else
        sgn x * of_int (round_half_even (\<bar>x\<bar> / pow2 (max (floor_log2 \<bar>x\<bar>) (- 1022) - 52)))
          * pow2 (max (floor_log2 \<bar>x\<bar>) (- 1022) - 52))"

text \<open>\<^verbatim>\<open>a - b\<close> on floats.\<close>

definition float_sub :: "rat \<Rightarrow> rat \<Rightarrow> rat" where
  "float_sub a b = to_double (a - b)"


section \<open>Values, clock and environment\<close>

text \<open>
  Values held in a message, in a response or in a table row: the JSON-like values that
  boto3 hands to the program. A number of a table row is a \<^verbatim>\<open>Decimal\<close>, an exact
  rational.
\<close>

datatype json =
    JNull
  | JBool bool
  | JNum rat
  | JStr string
  | JList "json list"
  | JObj "(string \<times> json) list"

text \<open>Python's truth value of such a value (\<^verbatim>\<open>if v:\<close>).\<close>

fun truthy :: "json \<Rightarrow> bool" where
  "truthy JNull = False"
| "truthy (JBool b) = b"
| "truthy (JNum n) = (n \<noteq> 0)"
| "truthy (JStr s) = (s \<noteq> [])"
| "truthy (JList xs) = (xs \<noteq> [])"
| "truthy (JObj kvs) = (kvs \<noteq> [])"

type_synonym dict = "string \<rightharpoonup> json"

text \<open>\<^verbatim>\<open>d.get(k, default)\<close>.\<close>

definition dict_get :: "dict \<Rightarrow> string \<Rightarrow> json \<Rightarrow> json" where
  "dict_get d k dflt = (case d k of None \<Rightarrow> dflt | Some v \<Rightarrow> v)"

text \<open>
  A \<^verbatim>\<open>datetime\<close>. \<open>tzoffset\<close> is the offset from UTC in seconds, \<open>None\<close> for a
  naive value.
\<close>

record datetime =
  year :: int
  month :: int
  day :: int
  hour :: int
  minute :: int
  second :: int
  microsecond :: int
  tzoffset :: "int option"

definition is_leap :: "int \<Rightarrow> bool" where
  "is_leap y = (y mod 4 = 0 \<and> (y mod 100 \<noteq> 0 \<or> y mod 400 = 0))"

definition days_before_year :: "int \<Rightarrow> int" where
  "days_before_year y = (y - 1) * 365 + (y - 1) div 4 - (y - 1) div 100 + (y - 1) div 400"

definition days_in_month :: "int \<Rightarrow> int \<Rightarrow> int" where
  "days_in_month y m =
     (if m = 2 then (if is_leap y then 29 else 28)
      else if m = 4 \<or> m = 6 \<or> m = 9 \<or> m = 11 then 30 else 31)"

definition days_before_month :: "int \<Rightarrow> int \<Rightarrow> int" where
  "days_before_month y m =
     [0, 31, 59, 90, 120, 151, 181, 212, 243, 273, 304, 334] ! nat (m - 1)
       + (if m > 2 \<and> is_leap y then 1 else 0)"

text \<open>The proleptic Gregorian ordinal of a date; 1970-01-01 has ordinal 719163.\<close>

definition toordinal :: "datetime \<Rightarrow> int" where
  "toordinal d = days_before_year (year d) + days_before_month (year d) (month d) + day d"

text \<open>
  \<^verbatim>\<open>dt.timestamp()\<close> of an aware datetime: seconds since the epoch, to the
  microsecond. The program takes the timestamp of aware values only (it sets
  \<^verbatim>\<open>tzinfo\<close> to UTC on a naive one first). The float that Python returns is the
  nearest binary64 number; for a clock reading before the year 2106 (a timestamp below
  2 to the 32) its integer part is the integer part of this value, and its shortest
  decimal notation, which \<^verbatim>\<open>str\<close> prints, is this value.
\<close>

definition timestamp_of :: "datetime \<Rightarrow> rat" where
  "timestamp_of d =
     of_int ((toordinal d - 719163) * 86400 + hour d * 3600 + minute d * 60 + second d
             - (case tzoffset d of None \<Rightarrow> 0 | Some off \<Rightarrow> off))
       + of_int (microsecond d) / 1000000"

text \<open>\<^verbatim>\<open>int(x)\<close> of a number: truncation towards zero.\<close>

definition py_trunc :: "rat \<Rightarrow> int" where
  "py_trunc x = (if x \<ge> 0 then \<lfloor>x\<rfloor> else \<lceil>x\<rceil>)"

text \<open>The range check of the \<^verbatim>\<open>datetime(...)\<close> constructor.\<close>

definition datetime_valid :: "datetime \<Rightarrow> bool" where
  "datetime_valid d =
     (1 \<le> year d \<and> year d \<le> 9999 \<and> 1 \<le> month d \<and> month d \<le> 12
      \<and> 1 \<le> day d \<and> day d \<le> days_in_month (year d) (month d)
      \<and> 0 \<le> hour d \<and> hour d \<le> 23 \<and> 0 \<le> minute d \<and> minute d \<le> 59
      \<and> 0 \<le> second d \<and> second d \<le> 59
      \<and> 0 \<le> microsecond d \<and> microsecond d \<le> 999999)"

datatype error = ClientError | ValueError

text \<open>
  The environment of one invocation: the clock, the two delays read from the process
  environment, the calls of the collaborators that raise during this invocation, and
  the functions of the Python library whose behaviour the program relies on without
  defining it (\<open>None\<close> stands for \<^verbatim>\<open>ValueError\<close>). An invocation reads the clock
  once: every \<^verbatim>\<open>datetime.now(timezone.utc)\<close> of the invocation is \<open>now\<close>. A call of a
  collaborator either raises at every use in the invocation or at none.
\<close>

record env =
  now :: datetime
  MESSAGE_ACCUMULATION_DELAY :: int
  MESSAGE_EXTENSION_DELAY :: int
  sessoes_get_item_raises :: bool
  sessoes_put_item_raises :: bool
  sessoes_update_item_raises :: bool
  lambda_invoke_raises :: bool
  negociacao_query_raises :: bool
  negociacao_put_item_raises :: bool
  py_int :: "string \<Rightarrow> int option"
  fromisoformat :: "string \<Rightarrow> datetime option"
  py_repr :: "json \<Rightarrow> string"

section \<open>Debounce store and coordinator\<close>

text \<open>One pending message, as \<^verbatim>\<open>armazenar_mensagem_pendente\<close> writes it.\<close>

record pending_message =
  texto :: json
  tipo :: json
  timestamp :: rat
  codMensagem :: json
  nomeArquivo :: json
  localizacao :: json
  mensagemResposta :: json

text \<open>
  A row of the sessions table, keyed by the conversation code (the code is both the
  partition and the sort key). An attribute may be missing.
\<close>

record sessao_item =
  timer_timestamp :: "rat option"
  pending_messages :: "pending_message list option"
  last_message_timestamp :: "rat option"
  last_message_text :: "json option"
  timer_active :: "bool option"

text \<open>The payload of an asynchronous self-invocation (a scheduled wakeup).\<close>

record wakeup =
  codConversa :: string
  payload_timer_timestamp :: rat
  delay_seconds :: int

record world =
  sessoes_table :: "string \<rightharpoonup> sessao_item"
  invocations :: "wakeup list"

record accept_result =
  deve_processar :: bool
  is_first_message :: bool
  mensagens_acumuladas :: "nat option"
  timer_resetado :: "bool option"
  erro :: "error option"

definition get_item :: "env \<Rightarrow> world \<Rightarrow> string \<Rightarrow> error + sessao_item option" where
  "get_item e w k = (if sessoes_get_item_raises e then Inl ClientError else Inr (sessoes_table w k))"

definition put_item :: "env \<Rightarrow> world \<Rightarrow> string \<Rightarrow> sessao_item \<Rightarrow> error + world" where
  "put_item e w k it =
     (if sessoes_put_item_raises e then Inl ClientError
      else Inr (w\<lparr>sessoes_table := (sessoes_table w)(k \<mapsto> it)\<rparr>))"

text \<open>
  \<^verbatim>\<open>update_item\<close> changes the named attributes of the row and creates the row when it
  is missing; \<open>upd\<close> is the effect of the update expression.
\<close>

definition empty_item :: sessao_item where
  "empty_item = \<lparr>timer_timestamp = None, pending_messages = None,
     last_message_timestamp = None, last_message_text = None, timer_active = None\<rparr>"

definition update_item ::
  "env \<Rightarrow> world \<Rightarrow> string \<Rightarrow> (sessao_item \<Rightarrow> sessao_item) \<Rightarrow> error + world" where
  "update_item e w k upd =
     (if sessoes_update_item_raises e then Inl ClientError
      else Inr (w\<lparr>sessoes_table := (sessoes_table w)
             (k \<mapsto> upd (case sessoes_table w k of None \<Rightarrow> empty_item | Some it \<Rightarrow> it))\<rparr>))"

text \<open>
  The payload holds \<^verbatim>\<open>float(timer_timestamp)\<close>; the model keeps the number it was
  converted from, and the conversion is made where the payload is read
  (\<open>obter_try\<close>), which gives the same float.
\<close>

definition agendar_processamento :: "env \<Rightarrow> world \<Rightarrow> string \<Rightarrow> rat \<Rightarrow> int \<Rightarrow> world" where
  "agendar_processamento e w cod_conversa timer_ts delay =
     (if lambda_invoke_raises e then w
      else w\<lparr>invocations := invocations w @
             [\<lparr>codConversa = cod_conversa, payload_timer_timestamp = timer_ts,
               delay_seconds = delay\<rparr>]\<rparr>)"

text \<open>The dictionary appended to \<^verbatim>\<open>pending_messages\<close> for an inbound message.\<close>

definition nova_pendente :: "dict \<Rightarrow> rat \<Rightarrow> pending_message" where
  "nova_pendente mensagem timestamp_atual =
     \<lparr>texto = dict_get mensagem ''texto'' (JStr []),
      tipo = dict_get mensagem ''tipo'' (JStr ''TEXT''),
      timestamp = timestamp_atual,
      codMensagem = dict_get mensagem ''codMensagem'' (JStr []),
      nomeArquivo = dict_get mensagem ''nomeArquivo'' (JStr []),
      localizacao = dict_get mensagem ''localizacao'' (JStr []),
      mensagemResposta = dict_get mensagem ''mensagemResposta'' (JStr [])\<rparr>"

text \<open>\<^verbatim>\<open>item and item.get('timer_active')\<close>.\<close>

definition timer_ativo :: "sessao_item option \<Rightarrow> bool" where
  "timer_ativo item = (case item of None \<Rightarrow> False | Some it \<Rightarrow> timer_active it = Some True)"

text \<open>\<^verbatim>\<open>item.get('pending_messages', [])\<close>.\<close>

definition pending_of :: "sessao_item \<Rightarrow> pending_message list" where
  "pending_of it = (case pending_messages it of None \<Rightarrow> [] | Some ms \<Rightarrow> ms)"

text \<open>\<^verbatim>\<open>float(item.get('timer_timestamp', 0))\<close>: the stored \<^verbatim>\<open>Decimal\<close> as a float.\<close>

definition stored_timer :: "sessao_item \<Rightarrow> rat" where
  "stored_timer it = to_double (case timer_timestamp it of None \<Rightarrow> 0 | Some t \<Rightarrow> t)"

text \<open>No call of a collaborator of the debounce path raises in this environment.\<close>

definition sem_falhas :: "env \<Rightarrow> bool" where
  "sem_falhas e = (\<not> sessoes_get_item_raises e \<and> \<not> sessoes_put_item_raises e
     \<and> \<not> sessoes_update_item_raises e \<and> \<not> lambda_invoke_raises e)"

text \<open>
  The body of the \<^verbatim>\<open>try\<close> block of \<^verbatim>\<open>armazenar_mensagem_pendente\<close>: the branch
  taken when a timer is active, then the branch that starts a new accumulation.
  \<^verbatim>\<open>timestamp_atual\<close> is \<^verbatim>\<open>Decimal(str(now.timestamp()))\<close>, the clock reading to the
  microsecond.
\<close>

definition armazenar_try ::
  "env \<Rightarrow> world \<Rightarrow> string \<Rightarrow> dict \<Rightarrow> error + (accept_result \<times> world)" where
  "armazenar_try e w cod_conversa mensagem =
     (let timestamp_atual = timestamp_of (now e) in
      case get_item e w cod_conversa of
        Inl err \<Rightarrow> Inl err
      | Inr item \<Rightarrow>
          (case (if timer_ativo item then item else None) of
            Some it \<Rightarrow>
            (let pending = pending_of it @ [nova_pendente mensagem timestamp_atual]
             in case update_item e w cod_conversa
                    (\<lambda>r. r\<lparr>pending_messages := Some pending,
                            last_message_timestamp := Some timestamp_atual,
                            last_message_text := Some (dict_get mensagem ''texto'' (JStr [])),
                            timer_timestamp := Some timestamp_atual\<rparr>) of
                  Inl err \<Rightarrow> Inl err
                | Inr w1 \<Rightarrow>
                    Inr (\<lparr>deve_processar = False, is_first_message = False,
                          mensagens_acumuladas = Some (length pending),
                          timer_resetado = Some True, erro = None\<rparr>,
                         agendar_processamento e w1 cod_conversa timestamp_atual
                           (MESSAGE_EXTENSION_DELAY e)))
          | None \<Rightarrow>
            (let pending = [nova_pendente mensagem timestamp_atual]
             in case put_item e w cod_conversa
                    \<lparr>timer_timestamp = Some timestamp_atual,
                     pending_messages = Some pending,
                     last_message_timestamp = Some timestamp_atual,
                     last_message_text = Some (dict_get mensagem ''texto'' (JStr [])),
                     timer_active = Some True\<rparr> of
                  Inl err \<Rightarrow> Inl err
                | Inr w1 \<Rightarrow>
                    Inr (\<lparr>deve_processar = False, is_first_message = True,
                          mensagens_acumuladas = Some 1,
                          timer_resetado = None, erro = None\<rparr>,
                         agendar_processamento e w1 cod_conversa timestamp_atual
                           (MESSAGE_ACCUMULATION_DELAY e)))))"

text \<open>The \<^verbatim>\<open>except\<close> clause: any error gives \<^verbatim>\<open>deve_processar = True\<close>.\<close>

definition armazenar_mensagem_pendente ::
  "env \<Rightarrow> world \<Rightarrow> string \<Rightarrow> dict \<Rightarrow> accept_result \<times> world" where
  "armazenar_mensagem_pendente e w cod_conversa mensagem =
     (case armazenar_try e w cod_conversa mensagem of
        Inr r \<Rightarrow> r
      | Inl err \<Rightarrow>
          (\<lparr>deve_processar = True, is_first_message = True, mensagens_acumuladas = None,
            timer_resetado = None, erro = Some err\<rparr>, w))"

text \<open>
  The body of the \<^verbatim>\<open>try\<close> block of \<^verbatim>\<open>obter_e_limpar_mensagens_acumuladas\<close>.
  \<open>timer_ts\<close> is the number of the payload, received as a float. The test
  \<^verbatim>\<open>abs(stored_timer - timer_timestamp) > 0.1\<close> is computed on floats: the
  difference is rounded, and \<^verbatim>\<open>0.1\<close> is the float nearest to one tenth.
\<close>

definition obter_try ::
  "env \<Rightarrow> world \<Rightarrow> string \<Rightarrow> rat \<Rightarrow> error + (pending_message list \<times> world)" where
  "obter_try e w cod_conversa timer_ts =
     (case get_item e w cod_conversa of
        Inl err \<Rightarrow> Inl err
      | Inr None \<Rightarrow> Inr ([], w)
      | Inr (Some it) \<Rightarrow>
          if \<bar>float_sub (stored_timer it) (to_double timer_ts)\<bar> > to_double (1 / 10)
          then Inr ([], w)
          else if pending_of it = [] then Inr ([], w)
          else
            (case update_item e w cod_conversa
                    (\<lambda>r. r\<lparr>pending_messages := Some [], timer_active := Some False,
                            timer_timestamp := None\<rparr>) of
               Inl err \<Rightarrow> Inl err
             | Inr w1 \<Rightarrow> Inr (pending_of it, w1)))"

text \<open>The \<^verbatim>\<open>except\<close> clause: any error gives the empty list.\<close>

definition obter_e_limpar_mensagens_acumuladas ::
  "env \<Rightarrow> world \<Rightarrow> string \<Rightarrow> rat \<Rightarrow> pending_message list \<times> world" where
  "obter_e_limpar_mensagens_acumuladas e w cod_conversa timer_ts =
     (case obter_try e w cod_conversa timer_ts of
        Inr r \<Rightarrow> r
      | Inl err \<Rightarrow> ([], w))"


section \<open>Negotiation ledger and session lifecycle\<close>

subsection \<open>Timestamps\<close>

text \<open>\<^verbatim>\<open>str.strip()\<close>, on the ASCII whitespace characters.\<close>

definition py_isspace :: "char \<Rightarrow> bool" where
  "py_isspace c = (c \<in> set [CHR 0x09, CHR 0x0A, CHR 0x0B, CHR 0x0C, CHR 0x0D,
                              CHR 0x1C, CHR 0x1D, CHR 0x1E, CHR 0x1F, CHR 0x20])"

definition strip :: "string \<Rightarrow> string" where
  "strip s = rev (dropWhile py_isspace (rev (dropWhile py_isspace s)))"

text \<open>\<^verbatim>\<open>s[a:b]\<close> for \<open>0 \<le> a \<le> b\<close>.\<close>

definition slice :: "nat \<Rightarrow> nat \<Rightarrow> string \<Rightarrow> string" where
  "slice a b s = take (b - a) (drop a s)"

text \<open>\<^verbatim>\<open>str(v)\<close>: a string is itself, any other value is printed by the library.\<close>

definition py_str :: "env \<Rightarrow> json \<Rightarrow> string" where
  "py_str e v = (case v of JStr s \<Rightarrow> s | _ \<Rightarrow> py_repr e v)"

text \<open>
  The compact positional form: the seven \<^verbatim>\<open>int(...)\<close> of slices; any of them may
  raise \<^verbatim>\<open>ValueError\<close>.
\<close>

definition campos_compactos :: "env \<Rightarrow> string \<Rightarrow> datetime option" where
  "campos_compactos e s =
     do {
       y \<leftarrow> py_int e (slice 0 4 s);
       mo \<leftarrow> py_int e (slice 4 6 s);
       d \<leftarrow> py_int e (slice 6 8 s);
       h \<leftarrow> py_int e (slice 8 10 s);
       mi \<leftarrow> py_int e (slice 10 12 s);
       se \<leftarrow> py_int e (slice 12 14 s);
       us \<leftarrow> (if length s \<ge> 20 then py_int e (slice 14 20 s) else Some 0);
       Some \<lparr>year = y, month = mo, day = d, hour = h, minute = mi, second = se,
             microsecond = us, tzoffset = Some 0\<rparr>
     }"

definition parse_timestamp_to_unix :: "env \<Rightarrow> string \<Rightarrow> error + int" where
  "parse_timestamp_to_unix e tempo_str0 =
     (if tempo_str0 = [] then Inl ValueError
      else
        let tempo_str = strip tempo_str0 in
        if CHR ''T'' \<in> set tempo_str \<and> CHR ''-'' \<in> set tempo_str then
          (let tempo_iso = (if endswith tempo_str ''Z'' then butlast tempo_str else tempo_str)
           in case fromisoformat e tempo_iso of
                None \<Rightarrow> Inl ValueError
              | Some dt_obj \<Rightarrow>
                  Inr (py_trunc (timestamp_of
                    (if tzoffset dt_obj = None then dt_obj\<lparr>tzoffset := Some 0\<rparr> else dt_obj))))
        else if length tempo_str \<le> 10 then
          (case py_int e tempo_str of None \<Rightarrow> Inl ValueError | Some n \<Rightarrow> Inr n)
        else
          (case campos_compactos e tempo_str of
             None \<Rightarrow> Inl ValueError
           | Some dt_obj \<Rightarrow>
               if datetime_valid dt_obj then Inr (py_trunc (timestamp_of dt_obj))
               else Inl ValueError))"

text \<open>
  \<^verbatim>\<open>strftime\<close> with the two formats the program uses. The fields are printed with
  leading zeros (four digits for the year: years 1000 to 9999).
\<close>

definition dig :: "int \<Rightarrow> nat \<Rightarrow> char" where
  "dig n k = ''0123456789'' ! nat ((n div 10 ^ k) mod 10)"

definition pad2 :: "int \<Rightarrow> string" where
  "pad2 n = [dig n 1, dig n 0]"

definition pad4 :: "int \<Rightarrow> string" where
  "pad4 n = [dig n 3, dig n 2, dig n 1, dig n 0]"

definition pad6 :: "int \<Rightarrow> string" where
  "pad6 n = [dig n 5, dig n 4, dig n 3, dig n 2, dig n 1, dig n 0]"

text \<open>\<^verbatim>\<open>strftime("%Y-%m-%dT%H:%M:%SZ")\<close>.\<close>

definition strftime_s :: "datetime \<Rightarrow> string" where
  "strftime_s d = pad4 (year d) @ ''-'' @ pad2 (month d) @ ''-'' @ pad2 (day d) @ ''T''
     @ pad2 (hour d) @ '':'' @ pad2 (minute d) @ '':'' @ pad2 (second d) @ ''Z''"

text \<open>\<^verbatim>\<open>strftime("%Y-%m-%dT%H:%M:%S.%fZ")\<close>.\<close>

definition strftime_us :: "datetime \<Rightarrow> string" where
  "strftime_us d = pad4 (year d) @ ''-'' @ pad2 (month d) @ ''-'' @ pad2 (day d) @ ''T''
     @ pad2 (hour d) @ '':'' @ pad2 (minute d) @ '':'' @ pad2 (second d)
     @ ''.'' @ pad6 (microsecond d) @ ''Z''"

subsection \<open>The negotiation table\<close>

text \<open>
  A row is a dictionary of attributes. The table is keyed by \<^verbatim>\<open>telefone\<close> (partition
  key) and \<^verbatim>\<open>tempo_sessao\<close> (sort key, a string): it holds at most one row per key.
\<close>

type_synonym item = "string \<rightharpoonup> json"

definition sort_key :: "item \<Rightarrow> string" where
  "sort_key it = (case it ''tempo_sessao'' of Some (JStr s) \<Rightarrow> s | _ \<Rightarrow> [])"

text \<open>The row with the greatest sort key.\<close>

fun mais_recente :: "item list \<Rightarrow> item option" where
  "mais_recente [] = None"
| "mais_recente (x # xs) =
     (case mais_recente xs of
        None \<Rightarrow> Some x
      | Some y \<Rightarrow> if sort_key y \<le> sort_key x then Some x else Some y)"

definition do_telefone :: "string \<Rightarrow> item \<Rightarrow> bool" where
  "do_telefone telefone it = (it ''telefone'' = Some (JStr telefone))"

text \<open>
  \<^verbatim>\<open>query(KeyConditionExpression=Key('telefone').eq(telefone), ScanIndexForward=False,
  Limit=1)\<close>: the latest row of the correspondent, if any.
\<close>

definition query_latest :: "env \<Rightarrow> item list \<Rightarrow> string \<Rightarrow> error + item option" where
  "query_latest e tbl telefone =
     (if negociacao_query_raises e then Inl ClientError
      else Inr (mais_recente (filter (do_telefone telefone) tbl)))"

text \<open>A \<^verbatim>\<open>ProjectionExpression\<close>.\<close>

definition project :: "string list \<Rightarrow> item \<Rightarrow> item" where
  "project ks it = (\<lambda>k. if k \<in> set ks then it k else None)"

definition same_key :: "item \<Rightarrow> item \<Rightarrow> bool" where
  "same_key a b = (a ''telefone'' = b ''telefone'' \<and> a ''tempo_sessao'' = b ''tempo_sessao'')"

text \<open>\<^verbatim>\<open>put_item\<close> replaces the row of the same key; both key attributes must be strings.\<close>

definition negociacao_put_item :: "env \<Rightarrow> item list \<Rightarrow> item \<Rightarrow> error + item list" where
  "negociacao_put_item e tbl it =
     (if negociacao_put_item_raises e then Inl ClientError
      else case (it ''telefone'', it ''tempo_sessao'') of
             (Some (JStr t), Some (JStr s)) \<Rightarrow> Inr (it # filter (\<lambda>r. \<not> same_key r it) tbl)
           | _ \<Rightarrow> Inl ClientError)"

text \<open>The row stored under a key.\<close>

definition registro :: "item list \<Rightarrow> string \<Rightarrow> string \<Rightarrow> item option" where
  "registro tbl telefone tempo_sessao =
     find (\<lambda>r. r ''telefone'' = Some (JStr telefone)
              \<and> r ''tempo_sessao'' = Some (JStr tempo_sessao)) tbl"

subsection \<open>Session lifecycle\<close>

definition get_session_timestamp_from_negociacao ::
  "env \<Rightarrow> item list \<Rightarrow> string \<Rightarrow> string option \<times> string option" where
  "get_session_timestamp_from_negociacao e tbl telefone =
     (if telefone = [] then (None, None)
      else case query_latest e tbl telefone of
             Inl err \<Rightarrow> (None, None)
           | Inr None \<Rightarrow> (None, None)
           | Inr (Some row) \<Rightarrow>
               (let it = project [''tempo_sessao'', ''session_id''] row in
                case it ''tempo_sessao'' of
                  None \<Rightarrow> (None, None)
                | Some ts \<Rightarrow>
                    (Some (py_str e ts),
                     (case it ''session_id'' of
                        None \<Rightarrow> None
                      | Some v \<Rightarrow> if truthy v then Some (py_str e v) else None))))"

definition is_memory_valid :: "env \<Rightarrow> string \<Rightarrow> bool" where
  "is_memory_valid e tempo_memoria_str =
     (if tempo_memoria_str = [] then False
      else case parse_timestamp_to_unix e tempo_memoria_str of
             Inl err \<Rightarrow> False
           | Inr memory_timestamp \<Rightarrow>
               py_trunc (timestamp_of (now e)) - memory_timestamp < 604800)"

definition immutable_fields :: "string list" where
  "immutable_fields =
     [''carga_id'', ''veiculo_cavalo'', ''veiculo_cavalo_id'', ''id_veiculo_equipamento'',
      ''equipamento_ids'', ''tipo_veiculo_id'', ''tipo_equipamento_id'', ''tempo_memoria'',
      ''placa_cavalo'', ''placa_equipamento'']"

text \<open>
  The loop over \<^verbatim>\<open>immutable_fields\<close>: a field is copied when the previous row has it
  with a truthy value. The inherited dictionary is kept as the list of its entries, in
  insertion order.
\<close>

fun herdar :: "item \<Rightarrow> string list \<Rightarrow> (string \<times> json) list" where
  "herdar prev_item [] = []"
| "herdar prev_item (field # rest) =
     (case prev_item field of
        None \<Rightarrow> herdar prev_item rest
      | Some v \<Rightarrow>
          if truthy v then (field, v) # herdar prev_item rest
          else herdar prev_item rest)"

definition get_previous_negotiation_data ::
  "env \<Rightarrow> item list \<Rightarrow> string \<Rightarrow> (string \<times> json) list" where
  "get_previous_negotiation_data e tbl telefone =
     (if telefone = [] then []
      else case query_latest e tbl telefone of
             Inl err \<Rightarrow> []
           | Inr None \<Rightarrow> []
           | Inr (Some prev_item) \<Rightarrow> herdar prev_item immutable_fields)"

text \<open>
  The row that \<^verbatim>\<open>_save_session_timestamp_to_negociacao\<close> builds: the three (or four)
  base attributes, updated with the inherited data from which an expired
  \<^verbatim>\<open>tempo_memoria\<close> has been deleted.
\<close>

definition montar_item ::
  "env \<Rightarrow> (string \<times> json) list \<Rightarrow> string \<Rightarrow> string \<Rightarrow> string \<Rightarrow> string option \<Rightarrow> item" where
  "montar_item e inherited_data telefone tempo_sessao session_id negociacao_iniciada_em =
     (let item0 = [''telefone'' \<mapsto> JStr telefone, ''tempo_sessao'' \<mapsto> JStr tempo_sessao,
                   ''session_id'' \<mapsto> JStr session_id];
          item1 = (case negociacao_iniciada_em of
                     None \<Rightarrow> item0
                   | Some s \<Rightarrow>
                       if s = [] then item0
                       else item0(''negociacao_iniciada_em'' \<mapsto> JStr s))
      in if inherited_data = [] then item1
         else
           let inherited_data1 =
                 (case map_of inherited_data ''tempo_memoria'' of
                    None \<Rightarrow> inherited_data
                  | Some tm \<Rightarrow>
                      if is_memory_valid e (py_str e tm) then inherited_data
                      else filter (\<lambda>kv. fst kv \<noteq> ''tempo_memoria'') inherited_data)
           in item1 ++ map_of inherited_data1)"

definition save_session_timestamp_to_negociacao ::
  "env \<Rightarrow> item list \<Rightarrow> string \<Rightarrow> string \<Rightarrow> string \<Rightarrow> string option \<Rightarrow> bool \<times> item list" where
  "save_session_timestamp_to_negociacao e tbl telefone tempo_sessao session_id
       negociacao_iniciada_em =
     (if telefone = [] \<or> tempo_sessao = [] \<or> session_id = [] then (False, tbl)
      else
        case negociacao_put_item e tbl
               (montar_item e (get_previous_negotiation_data e tbl telefone)
                  telefone tempo_sessao session_id negociacao_iniciada_em) of
          Inl err \<Rightarrow> (False, tbl)
        | Inr tbl1 \<Rightarrow> (True, tbl1))"

text \<open>
  The hour bucket of the clock:
  \<^verbatim>\<open>now.replace(minute=0, second=0, microsecond=0).strftime("%Y-%m-%dT%H:%M:%SZ")\<close>.
\<close>

definition bucket_atual :: "env \<Rightarrow> string" where
  "bucket_atual e = strftime_s ((now e)\<lparr>minute := 0, second := 0, microsecond := 0\<rparr>)"

definition get_or_create_session_id ::
  "env \<Rightarrow> item list \<Rightarrow> string \<Rightarrow> (error + string \<times> bool) \<times> item list" where
  "get_or_create_session_id e tbl telefone =
     (if telefone = [] then (Inr (strftime_us (now e), False), tbl)
      else
        let existing = get_session_timestamp_from_negociacao e tbl telefone;
            current_tempo_sessao = bucket_atual e;
            current_timestamp = py_trunc (timestamp_of (now e));
            new_session_id = strftime_us (now e);
            negociacao_iniciada_em = strftime_us (now e);
            criar =
              (Inr (new_session_id, False),
               snd (save_session_timestamp_to_negociacao e tbl telefone current_tempo_sessao
                      new_session_id (Some negociacao_iniciada_em)))
        in
          case existing of
            (Some existing_tempo_sessao, Some existing_session_id) \<Rightarrow>
              if existing_tempo_sessao = [] \<or> existing_session_id = [] then criar
              else
                (case parse_timestamp_to_unix e existing_session_id of
                   Inl err \<Rightarrow> (Inl err, tbl)
                 | Inr session_id_timestamp \<Rightarrow>
                     if current_timestamp - session_id_timestamp < 3600 then
                       (if existing_tempo_sessao = current_tempo_sessao then
                          (Inr (existing_session_id, False), tbl)
                        else
                          (Inr (existing_session_id, False),
                           snd (save_session_timestamp_to_negociacao e tbl telefone
                                  current_tempo_sessao existing_session_id
                                  (Some negociacao_iniciada_em))))
                     else
                       (Inr (new_session_id, True),
                        snd (save_session_timestamp_to_negociacao e tbl telefone
                               current_tempo_sessao new_session_id
                               (Some negociacao_iniciada_em))))
          | _ \<Rightarrow> criar)"


section \<open>Example data\<close>

text \<open>
  An instance of the library functions, enough for the timestamps the program itself
  writes: decimal integers, and the ISO form \<^verbatim>\<open>YYYY-MM-DDTHH:MM:SS\<close> with an optional
  fraction of six digits.
\<close>

definition digito :: "char \<Rightarrow> int option" where
  "digito c = (if isdigit c then Some (int (of_char c) - 48) else None)"

fun decimal :: "string \<Rightarrow> int \<Rightarrow> int option" where
  "decimal [] acc = Some acc"
| "decimal (c # cs) acc =
     (case digito c of None \<Rightarrow> None | Some d \<Rightarrow> decimal cs (10 * acc + d))"

definition int_decimal :: "string \<Rightarrow> int option" where
  "int_decimal s = (if s = [] then None else decimal s 0)"

definition iso_basico :: "string \<Rightarrow> datetime option" where
  "iso_basico s =
     (if (length s = 19 \<or> length s = 26 \<and> s ! 19 = CHR ''.'')
          \<and> s ! 4 = CHR ''-'' \<and> s ! 7 = CHR ''-'' \<and> s ! 10 = CHR ''T''
          \<and> s ! 13 = CHR '':'' \<and> s ! 16 = CHR '':''
      then
        do {
          y \<leftarrow> int_decimal (slice 0 4 s);
          mo \<leftarrow> int_decimal (slice 5 7 s);
          d \<leftarrow> int_decimal (slice 8 10 s);
          h \<leftarrow> int_decimal (slice 11 13 s);
          mi \<leftarrow> int_decimal (slice 14 16 s);
          se \<leftarrow> int_decimal (slice 17 19 s);
          us \<leftarrow> (if length s = 26 then int_decimal (slice 20 26 s) else Some 0);
          (if datetime_valid \<lparr>year = y, month = mo, day = d, hour = h, minute = mi,
                second = se, microsecond = us, tzoffset = None\<rparr>
           then Some \<lparr>year = y, month = mo, day = d, hour = h, minute = mi,
                second = se, microsecond = us, tzoffset = None\<rparr>
           else None)
        }
      else None)"

text \<open>
  An environment at \<open>h:mi:s.us\<close> UTC of 1 January 2024, with the default delays
  (10 and 3 seconds) and no collaborator error.
\<close>

definition env_em :: "int \<Rightarrow> int \<Rightarrow> int \<Rightarrow> int \<Rightarrow> env" where
  "env_em h mi s us =
     \<lparr>now = \<lparr>year = 2024, month = 1, day = 1, hour = h, minute = mi, second = s,
              microsecond = us, tzoffset = Some 0\<rparr>,
      MESSAGE_ACCUMULATION_DELAY = 10,
      MESSAGE_EXTENSION_DELAY = 3,
      sessoes_get_item_raises = False,
      sessoes_put_item_raises = False,
      sessoes_update_item_raises = False,
      lambda_invoke_raises = False,
      negociacao_query_raises = False,
      negociacao_put_item_raises = False,
      py_int = int_decimal,
      fromisoformat = iso_basico,
      py_repr = (\<lambda>v. [])\<rparr>"

definition mundo_vazio :: world where
  "mundo_vazio = \<lparr>sessoes_table = Map.empty, invocations = []\<rparr>"

definition texto_msg :: "string \<Rightarrow> dict" where
  "texto_msg t = [''texto'' \<mapsto> JStr t, ''tipo'' \<mapsto> JStr ''TEXT'']"

text \<open>The pending entry of a text message stored \<open>s\<close> seconds after 12:00:00.\<close>

definition pendente_txt :: "string \<Rightarrow> rat \<Rightarrow> pending_message" where
  "pendente_txt t s =
     \<lparr>texto = JStr t, tipo = JStr ''TEXT'', timestamp = 1704110400 + s,
      codMensagem = JStr [], nomeArquivo = JStr [], localizacao = JStr [],
      mensagemResposta = JStr []\<rparr>"

definition cod_exemplo :: string where
  "cod_exemplo = ''5511999990000''"

text \<open>The store after two messages, at 12:00:00 and 12:00:00.05.\<close>

definition mundo_dois :: world where
  "mundo_dois =
     snd (armazenar_mensagem_pendente (env_em 12 0 0 50000)
            (snd (armazenar_mensagem_pendente (env_em 12 0 0 0) mundo_vazio cod_exemplo
                    (texto_msg ''Oi'')))
            cod_exemplo (texto_msg ''bom dia''))"

text \<open>
  A burst of four messages and the four wakeups they schedule, one invocation after the
  other, each at its clock time. The messages arrive at 12:00:00, 12:00:02.50,
  12:00:02.55 and 12:00:05.52. Each wakeup calls
  \<^verbatim>\<open>obter_e_limpar_mensagens_acumuladas\<close> with the fencing value of its payload at the
  end of its sleep: the wakeup of the second message (3 seconds) at 12:00:05.50, of the
  third (3 seconds) at 12:00:05.55, of the first (10 seconds) at 12:00:10 and of the
  fourth (10 seconds) at 12:00:15.52.
\<close>

definition apos_a :: world where
  "apos_a = snd (armazenar_mensagem_pendente (env_em 12 0 0 0) mundo_vazio cod_exemplo
                   (texto_msg ''a''))"

definition apos_b :: world where
  "apos_b = snd (armazenar_mensagem_pendente (env_em 12 0 2 500000) apos_a cod_exemplo
                   (texto_msg ''b''))"

definition apos_c :: world where
  "apos_c = snd (armazenar_mensagem_pendente (env_em 12 0 2 550000) apos_b cod_exemplo
                   (texto_msg ''c''))"

definition disparo_b :: "pending_message list \<times> world" where
  "disparo_b = obter_e_limpar_mensagens_acumuladas (env_em 12 0 5 500000) apos_c cod_exemplo
                 (1704110400 + 5 / 2)"

definition apos_d :: world where
  "apos_d = snd (armazenar_mensagem_pendente (env_em 12 0 5 520000) (snd disparo_b)
                   cod_exemplo (texto_msg ''d''))"

definition disparo_c :: "pending_message list \<times> world" where
  "disparo_c = obter_e_limpar_mensagens_acumuladas (env_em 12 0 5 550000) apos_d cod_exemplo
                 (1704110400 + 51 / 20)"

definition disparo_a :: "pending_message list \<times> world" where
  "disparo_a = obter_e_limpar_mensagens_acumuladas (env_em 12 0 10 0) (snd disparo_c)
                 cod_exemplo 1704110400"

definition disparo_d :: "pending_message list \<times> world" where
  "disparo_d = obter_e_limpar_mensagens_acumuladas (env_em 12 0 15 520000) (snd disparo_a)
                 cod_exemplo (1704110400 + 138 / 25)"

text \<open>
  A ledger with one row for the correspondent: the session pointer was created at
  10:55:00 in the bucket of 10:00, the memory pointer two days before; the row holds a
  cargo id, a plate, four allow-listed fields with falsy values and one field that is
  not on the allow-list.
\<close>

definition linha_exemplo :: item where
  "linha_exemplo =
     [''telefone'' \<mapsto> JStr ''5511999990000'',
      ''tempo_sessao'' \<mapsto> JStr ''2024-01-01T10:00:00Z'',
      ''session_id'' \<mapsto> JStr ''2024-01-01T10:55:00.000000Z'',
      ''negociacao_iniciada_em'' \<mapsto> JStr ''2024-01-01T10:55:00.000000Z'',
      ''tempo_memoria'' \<mapsto> JStr ''2023-12-30T09:00:00.000000Z'',
      ''carga_id'' \<mapsto> JNum 42,
      ''placa_cavalo'' \<mapsto> JStr ''ABC1D23'',
      ''tipo_equipamento_id'' \<mapsto> JNum 0,
      ''placa_equipamento'' \<mapsto> JStr [],
      ''equipamento_ids'' \<mapsto> JList [],
      ''veiculo_cavalo'' \<mapsto> JObj [],
      ''ultima_pergunta'' \<mapsto> JStr ''qual a placa?'']"

definition tabela_exemplo :: "item list" where
  "tabela_exemplo = [linha_exemplo]"


section \<open>The debounce coordinator\<close>

subsection \<open>The two branches of a call that stores a message\<close>

lemma armazenar_iniciar:
  assumes "sem_falhas e" "\<not> timer_ativo (sessoes_table w cod)"
  shows "armazenar_mensagem_pendente e w cod m =
     (\<lparr>deve_processar = False, is_first_message = True, mensagens_acumuladas = Some 1,
       timer_resetado = None, erro = None\<rparr>,
      w\<lparr>sessoes_table := (sessoes_table w)
          (cod \<mapsto> \<lparr>timer_timestamp = Some (timestamp_of (now e)),
                    pending_messages = Some [nova_pendente m (timestamp_of (now e))],
                    last_message_timestamp = Some (timestamp_of (now e)),
                    last_message_text = Some (dict_get m ''texto'' (JStr [])),
                    timer_active = Some True\<rparr>),
        invocations := invocations w @
          [\<lparr>codConversa = cod, payload_timer_timestamp = timestamp_of (now e),
            delay_seconds = MESSAGE_ACCUMULATION_DELAY e\<rparr>]\<rparr>)"
  using assms
  by (auto simp: armazenar_mensagem_pendente_def armazenar_try_def get_item_def
        update_item_def put_item_def Let_def sem_falhas_def agendar_processamento_def
        split: option.splits)

lemma armazenar_estender:
  assumes "sem_falhas e" "sessoes_table w cod = Some it" "timer_active it = Some True"
  shows "armazenar_mensagem_pendente e w cod m =
     (\<lparr>deve_processar = False, is_first_message = False,
       mensagens_acumuladas = Some (length (pending_of it) + 1),
       timer_resetado = Some True, erro = None\<rparr>,
      w\<lparr>sessoes_table := (sessoes_table w)
          (cod \<mapsto> it\<lparr>pending_messages :=
                        Some (pending_of it @ [nova_pendente m (timestamp_of (now e))]),
                      last_message_timestamp := Some (timestamp_of (now e)),
                      last_message_text := Some (dict_get m ''texto'' (JStr [])),
                      timer_timestamp := Some (timestamp_of (now e))\<rparr>),
        invocations := invocations w @
          [\<lparr>codConversa = cod, payload_timer_timestamp = timestamp_of (now e),
            delay_seconds = MESSAGE_EXTENSION_DELAY e\<rparr>]\<rparr>)"
  using assms
  by (auto simp: armazenar_mensagem_pendente_def armazenar_try_def get_item_def
        update_item_def put_item_def Let_def sem_falhas_def agendar_processamento_def
        timer_ativo_def split: option.splits)

subsection \<open>Evaluation of the example data\<close>

lemma ts_env_em:
  "timestamp_of (now (env_em h mi s us))
     = 1704067200 + of_int (h * 3600 + mi * 60 + s) + of_int us / 1000000"
  by (simp add: env_em_def timestamp_of_def toordinal_def days_before_year_def
      days_before_month_def is_leap_def)

lemma flags_env_em:
  "sessoes_get_item_raises (env_em h mi s us) = False"
  "sessoes_put_item_raises (env_em h mi s us) = False"
  "sessoes_update_item_raises (env_em h mi s us) = False"
  "lambda_invoke_raises (env_em h mi s us) = False"
  "negociacao_query_raises (env_em h mi s us) = False"
  "negociacao_put_item_raises (env_em h mi s us) = False"
  "MESSAGE_ACCUMULATION_DELAY (env_em h mi s us) = 10"
  "MESSAGE_EXTENSION_DELAY (env_em h mi s us) = 3"
  "sem_falhas (env_em h mi s us)"
  by (simp_all add: env_em_def sem_falhas_def)

lemmas debounce_defs =
  armazenar_mensagem_pendente_def armazenar_try_def
  obter_e_limpar_mensagens_acumuladas_def obter_try_def get_item_def put_item_def
  update_item_def agendar_processamento_def timer_ativo_def pending_of_def stored_timer_def
  Let_def nova_pendente_def texto_msg_def pendente_txt_def dict_get_def mundo_vazio_def
  cod_exemplo_def

lemma mundo_dois_eval:
  "mundo_dois =
     \<lparr>sessoes_table = [cod_exemplo \<mapsto>
        \<lparr>timer_timestamp = Some (1704110400 + 1 / 20),
         pending_messages = Some [pendente_txt ''Oi'' 0, pendente_txt ''bom dia'' (1 / 20)],
         last_message_timestamp = Some (1704110400 + 1 / 20),
         last_message_text = Some (JStr ''bom dia''),
         timer_active = Some True\<rparr>],
      invocations =
        [\<lparr>codConversa = cod_exemplo, payload_timer_timestamp = 1704110400,
          delay_seconds = 10\<rparr>,
         \<lparr>codConversa = cod_exemplo, payload_timer_timestamp = 1704110400 + 1 / 20,
          delay_seconds = 3\<rparr>]\<rparr>"
  by (simp add: mundo_dois_def debounce_defs ts_env_em flags_env_em)

subsection \<open>A wakeup whose token has been overwritten\<close>

text \<open>
  Claim C2 fails on the code. After two messages, at 12:00:00 and 12:00:00.05, the
  stored token is that of the second message and the timer is active. The wakeup of
  the first message carries the token of 12:00:00, which is not the stored token; the
  claim has it return the empty list and leave the record unchanged. The test of the
  code, \<^verbatim>\<open>abs(stored_timer - timer_timestamp) > 0.1\<close>, lets it through: the call
  returns both messages and drains the record.
\<close>

theorem fire_token_mismatch_drains:
  "map_option timer_timestamp (sessoes_table mundo_dois cod_exemplo)
      = Some (Some (1704110400 + 1 / 20))
   \<and> map_option timer_active (sessoes_table mundo_dois cod_exemplo) = Some (Some True)
   \<and> Some (1704110400 + 1 / 20) \<noteq> Some (1704110400 :: rat)
   \<and> fst (obter_e_limpar_mensagens_acumuladas (env_em 12 0 10 0) mundo_dois cod_exemplo
           1704110400)
      = [pendente_txt ''Oi'' 0, pendente_txt ''bom dia'' (1 / 20)]
   \<and> map_option pending_messages
        (sessoes_table (snd (obter_e_limpar_mensagens_acumuladas (env_em 12 0 10 0)
            mundo_dois cod_exemplo 1704110400)) cod_exemplo) = Some (Some [])
   \<and> map_option timer_active
        (sessoes_table (snd (obter_e_limpar_mensagens_acumuladas (env_em 12 0 10 0)
            mundo_dois cod_exemplo 1704110400)) cod_exemplo) = Some (Some False)"
  by code_simp

subsection \<open>Accepting a message\<close>

text \<open>
  Claim C3: when no call of a collaborator raises, a message that finds no record with
  an active timer creates a record holding only that message, with the current time as
  fencing token and \<^verbatim>\<open>timer_active\<close> true, schedules a wakeup with
  \<^verbatim>\<open>MESSAGE_ACCUMULATION_DELAY\<close> carrying that time, and returns
  \<^verbatim>\<open>deve_processar = False\<close>; a message that finds a record with an active timer
  appends to its pending messages, overwrites the token with the current time,
  schedules a wakeup with \<^verbatim>\<open>MESSAGE_EXTENSION_DELAY\<close> carrying the new time, and
  returns \<^verbatim>\<open>deve_processar = False\<close>.
\<close>

theorem accept_arms_or_extends:
  assumes "sem_falhas e"
  shows "(\<not> timer_ativo (sessoes_table w cod) \<longrightarrow>
      armazenar_mensagem_pendente e w cod m =
       (\<lparr>deve_processar = False, is_first_message = True, mensagens_acumuladas = Some 1,
         timer_resetado = None, erro = None\<rparr>,
        w\<lparr>sessoes_table := (sessoes_table w)
            (cod \<mapsto> \<lparr>timer_timestamp = Some (timestamp_of (now e)),
                      pending_messages = Some [nova_pendente m (timestamp_of (now e))],
                      last_message_timestamp = Some (timestamp_of (now e)),
                      last_message_text = Some (dict_get m ''texto'' (JStr [])),
                      timer_active = Some True\<rparr>),
          invocations := invocations w @
            [\<lparr>codConversa = cod, payload_timer_timestamp = timestamp_of (now e),
              delay_seconds = MESSAGE_ACCUMULATION_DELAY e\<rparr>]\<rparr>))
    \<and> (\<forall>it. sessoes_table w cod = Some it \<and> timer_active it = Some True \<longrightarrow>
      armazenar_mensagem_pendente e w cod m =
       (\<lparr>deve_processar = False, is_first_message = False,
         mensagens_acumuladas = Some (length (pending_of it) + 1),
         timer_resetado = Some True, erro = None\<rparr>,
        w\<lparr>sessoes_table := (sessoes_table w)
            (cod \<mapsto> it\<lparr>pending_messages :=
                          Some (pending_of it @ [nova_pendente m (timestamp_of (now e))]),
                        last_message_timestamp := Some (timestamp_of (now e)),
                        last_message_text := Some (dict_get m ''texto'' (JStr [])),
                        timer_timestamp := Some (timestamp_of (now e))\<rparr>),
          invocations := invocations w @
            [\<lparr>codConversa = cod, payload_timer_timestamp = timestamp_of (now e),
              delay_seconds = MESSAGE_EXTENSION_DELAY e\<rparr>]\<rparr>))"
  using armazenar_iniciar [OF assms] armazenar_estender [OF assms] by blast

text \<open>
  The theorem on the empty store (a first message at 12:00:00, wakeup after 10 seconds)
  and on the store it leaves (a second message at 12:00:00.05, wakeup after 3 seconds).
\<close>

theorem accept_arms_or_extends_witness:
  "sem_falhas (env_em 12 0 0 0) \<and> \<not> timer_ativo (sessoes_table mundo_vazio cod_exemplo)
   \<and> \<not> deve_processar (fst (armazenar_mensagem_pendente (env_em 12 0 0 0) mundo_vazio
          cod_exemplo (texto_msg ''Oi'')))
   \<and> invocations (snd (armazenar_mensagem_pendente (env_em 12 0 0 0) mundo_vazio
          cod_exemplo (texto_msg ''Oi'')))
      = [\<lparr>codConversa = cod_exemplo, payload_timer_timestamp = 1704110400,
          delay_seconds = 10\<rparr>]
   \<and> map_option pending_messages (sessoes_table mundo_dois cod_exemplo)
      = Some (Some [pendente_txt ''Oi'' 0, pendente_txt ''bom dia'' (1 / 20)])
   \<and> invocations mundo_dois
      = [\<lparr>codConversa = cod_exemplo, payload_timer_timestamp = 1704110400,
          delay_seconds = 10\<rparr>,
         \<lparr>codConversa = cod_exemplo, payload_timer_timestamp = 1704110400 + 1 / 20,
          delay_seconds = 3\<rparr>]"
proof -
  have sf: "sem_falhas (env_em 12 0 0 0)" by (simp add: flags_env_em)
  have na: "\<not> timer_ativo (sessoes_table mundo_vazio cod_exemplo)"
    by (simp add: mundo_vazio_def timer_ativo_def)
  from accept_arms_or_extends [OF sf, of mundo_vazio cod_exemplo "texto_msg ''Oi''"] na
  have "armazenar_mensagem_pendente (env_em 12 0 0 0) mundo_vazio cod_exemplo
          (texto_msg ''Oi'') =
       (\<lparr>deve_processar = False, is_first_message = True, mensagens_acumuladas = Some 1,
         timer_resetado = None, erro = None\<rparr>,
        mundo_vazio\<lparr>sessoes_table := (sessoes_table mundo_vazio)
            (cod_exemplo \<mapsto> \<lparr>timer_timestamp = Some (timestamp_of (now (env_em 12 0 0 0))),
                      pending_messages = Some [nova_pendente (texto_msg ''Oi'')
                         (timestamp_of (now (env_em 12 0 0 0)))],
                      last_message_timestamp = Some (timestamp_of (now (env_em 12 0 0 0))),
                      last_message_text = Some (dict_get (texto_msg ''Oi'') ''texto'' (JStr [])),
                      timer_active = Some True\<rparr>),
          invocations := invocations mundo_vazio @
            [\<lparr>codConversa = cod_exemplo,
              payload_timer_timestamp = timestamp_of (now (env_em 12 0 0 0)),
              delay_seconds = MESSAGE_ACCUMULATION_DELAY (env_em 12 0 0 0)\<rparr>]\<rparr>)"
    by blast
  then show ?thesis
    using sf na by (simp add: mundo_dois_eval ts_env_em flags_env_em mundo_vazio_def)
qed

subsection \<open>A failing store\<close>

text \<open>
  Claim C4: when the read of the debounce store raises, or the write that the call
  performs raises (the update of an active record, the put of a new one), the call
  returns \<^verbatim>\<open>deve_processar = True\<close>; the store is unchanged.
\<close>

theorem accept_store_failure:
  assumes "sessoes_get_item_raises e
     \<or> (timer_ativo (sessoes_table w cod) \<and> sessoes_update_item_raises e)
     \<or> (\<not> timer_ativo (sessoes_table w cod) \<and> sessoes_put_item_raises e)"
  shows "deve_processar (fst (armazenar_mensagem_pendente e w cod m))
     \<and> snd (armazenar_mensagem_pendente e w cod m) = w"
  using assms
  by (auto simp: armazenar_mensagem_pendente_def armazenar_try_def get_item_def
        update_item_def put_item_def Let_def timer_ativo_def split: option.splits)

text \<open>The theorem with a failing read, and with a failing update of the active record.\<close>

theorem accept_store_failure_witness:
  "deve_processar (fst (armazenar_mensagem_pendente
        ((env_em 12 0 1 0)\<lparr>sessoes_get_item_raises := True\<rparr>) mundo_vazio cod_exemplo
        (texto_msg ''Oi'')))
   \<and> timer_ativo (sessoes_table mundo_dois cod_exemplo)
   \<and> deve_processar (fst (armazenar_mensagem_pendente
        ((env_em 12 0 1 0)\<lparr>sessoes_update_item_raises := True\<rparr>) mundo_dois cod_exemplo
        (texto_msg ''Oi'')))"
proof -
  have ta: "timer_ativo (sessoes_table mundo_dois cod_exemplo)"
    by (simp add: mundo_dois_eval timer_ativo_def)
  show ?thesis
    using ta
      accept_store_failure [of "(env_em 12 0 1 0)\<lparr>sessoes_get_item_raises := True\<rparr>"
        mundo_vazio cod_exemplo "texto_msg ''Oi''"]
      accept_store_failure [of "(env_em 12 0 1 0)\<lparr>sessoes_update_item_raises := True\<rparr>"
        mundo_dois cod_exemplo "texto_msg ''Oi''"]
    by simp
qed


subsection \<open>A burst that is fired twice\<close>

text \<open>
  Claim C1 fails on the code. In the burst of \<open>apos_a\<close> to \<open>disparo_d\<close> every message
  arrives less than the extension delay (3 seconds) after the message before it and
  before the wakeup armed by that message has fired, and every wakeup fires at the end
  of its sleep: the four wakeups scheduled are those of the list, and each clock
  reading of a wakeup is the token of its payload plus its delay. The third
  message arrives 0.05 second after the second, so the wakeup of the second message,
  at 12:00:05.50, finds the token of the third within the tolerance of 0.1 second and
  drains the batch of three; the fourth message, at 12:00:05.52, finds no active timer
  and starts a new batch. Two wakeups return a non-empty list, and neither
  list holds the four messages.
\<close>

theorem debounce_burst_fired_twice:
  "invocations (snd disparo_d) =
     [\<lparr>codConversa = cod_exemplo, payload_timer_timestamp = 1704110400,
       delay_seconds = 10\<rparr>,
      \<lparr>codConversa = cod_exemplo, payload_timer_timestamp = 1704110400 + 5 / 2,
       delay_seconds = 3\<rparr>,
      \<lparr>codConversa = cod_exemplo, payload_timer_timestamp = 1704110400 + 51 / 20,
       delay_seconds = 3\<rparr>,
      \<lparr>codConversa = cod_exemplo, payload_timer_timestamp = 1704110400 + 138 / 25,
       delay_seconds = 10\<rparr>]
   \<and> timestamp_of (now (env_em 12 0 5 500000)) = (1704110400 + 5 / 2) + 3
   \<and> timestamp_of (now (env_em 12 0 5 550000)) = (1704110400 + 51 / 20) + 3
   \<and> timestamp_of (now (env_em 12 0 10 0)) = 1704110400 + 10
   \<and> timestamp_of (now (env_em 12 0 15 520000)) = (1704110400 + 138 / 25) + 10
   \<and> timestamp_of (now (env_em 12 0 5 520000)) - timestamp_of (now (env_em 12 0 2 550000)) < 3
   \<and> timestamp_of (now (env_em 12 0 5 520000)) < timestamp_of (now (env_em 12 0 5 550000))
   \<and> timer_ativo (sessoes_table apos_c cod_exemplo)
   \<and> fst disparo_b
      = [pendente_txt ''a'' 0, pendente_txt ''b'' (5 / 2), pendente_txt ''c'' (51 / 20)]
   \<and> \<not> timer_ativo (sessoes_table (snd disparo_b) cod_exemplo)
   \<and> fst disparo_c = []
   \<and> fst disparo_a = []
   \<and> fst disparo_d = [pendente_txt ''d'' (138 / 25)]"
  by code_simp

text \<open>
  The tolerance is a comparison of floats. Two messages exactly 0.1 second apart, at
  11:59:59.900018 and 12:00:00.000018: the difference of the two floats is below the
  float \<^verbatim>\<open>0.1\<close>, so the wakeup of the first message drains the batch of both.
\<close>

lemma tolerance_on_floats:
  "fst (obter_e_limpar_mensagens_acumuladas (env_em 12 0 9 900018)
          (snd (armazenar_mensagem_pendente (env_em 12 0 0 18)
                 (snd (armazenar_mensagem_pendente (env_em 11 59 59 900018) mundo_vazio
                         cod_exemplo (texto_msg ''a'')))
                 cod_exemplo (texto_msg ''b'')))
          cod_exemplo (1704110399 + 900018 / 1000000))
     = [pendente_txt ''a'' (- 1 + 900018 / 1000000), pendente_txt ''b'' (18 / 1000000)]"
  by code_simp


section \<open>The negotiation ledger\<close>

subsection \<open>The latest row\<close>

lemma mais_recente_in_set: "mais_recente xs = Some m \<Longrightarrow> m \<in> set xs"
  by (induction xs arbitrary: m) (auto split: option.splits if_splits)

lemma mais_recente_none: "mais_recente xs = None \<Longrightarrow> xs = []"
  by (cases xs) (auto split: option.splits if_splits)

lemma mais_recente_max:
  "mais_recente xs = Some m \<Longrightarrow> y \<in> set xs \<Longrightarrow> sort_key y \<le> sort_key m"
proof (induction xs arbitrary: m)
  case Nil
  then show ?case by simp
next
  case (Cons x xs)
  from Cons.prems(2) have yx: "y = x \<or> y \<in> set xs" by simp
  show ?case
  proof (cases "mais_recente xs")
    case None
    then have "xs = []" by (rule mais_recente_none)
    with Cons.prems show ?thesis by simp
  next
    case (Some z)
    note IH = Cons.IH [OF Some]
    show ?thesis
    proof (cases "sort_key z \<le> sort_key x")
      case True
      with Some Cons.prems(1) have m: "m = x" by simp
      from yx show ?thesis
      proof
        assume "y = x"
        with m show ?thesis by simp
      next
        assume "y \<in> set xs"
        from IH [OF this] True m show ?thesis by simp
      qed
    next
      case False
      with Some Cons.prems(1) have m: "m = z" by simp
      from yx show ?thesis
      proof
        assume "y = x"
        with m False show ?thesis by simp
      next
        assume "y \<in> set xs"
        from IH [OF this] m show ?thesis by simp
      qed
    qed
  qed
qed

lemma mais_recente_head:
  assumes "\<forall>y\<in>set ys. sort_key y \<le> sort_key x"
  shows "mais_recente (x # ys) = Some x"
proof (cases "mais_recente ys")
  case None
  then show ?thesis by simp
next
  case (Some z)
  from mais_recente_in_set [OF Some] assms have "sort_key z \<le> sort_key x" by simp
  with Some show ?thesis by simp
qed

subsection \<open>Inherited data and the new row\<close>

lemma herdar_lookup:
  "map_of (herdar prev fs) k =
     (if k \<in> set fs
      then (case prev k of None \<Rightarrow> None | Some v \<Rightarrow> if truthy v then Some v else None)
      else None)"
  by (induction fs) (auto split: option.splits)

lemma map_of_filter_key:
  "map_of (filter (\<lambda>kv. fst kv \<noteq> a) l) k = (if k = a then None else map_of l k)"
  by (induction l) auto

lemma montar_item_alt:
  "montar_item e h telefone tempo_sessao session_id ini k =
     (case map_of (case map_of h ''tempo_memoria'' of
                     None \<Rightarrow> h
                   | Some tm \<Rightarrow>
                       if is_memory_valid e (py_str e tm) then h
                       else filter (\<lambda>kv. fst kv \<noteq> ''tempo_memoria'') h) k of
        Some v \<Rightarrow> Some v
      | None \<Rightarrow>
          (case ini of
             None \<Rightarrow> [''telefone'' \<mapsto> JStr telefone, ''tempo_sessao'' \<mapsto> JStr tempo_sessao,
                       ''session_id'' \<mapsto> JStr session_id]
           | Some s \<Rightarrow>
               if s = [] then [''telefone'' \<mapsto> JStr telefone,
                               ''tempo_sessao'' \<mapsto> JStr tempo_sessao,
                               ''session_id'' \<mapsto> JStr session_id]
               else [''telefone'' \<mapsto> JStr telefone, ''tempo_sessao'' \<mapsto> JStr tempo_sessao,
                     ''session_id'' \<mapsto> JStr session_id,
                     ''negociacao_iniciada_em'' \<mapsto> JStr s]) k)"
proof (cases "h = []")
  case True
  then show ?thesis
    unfolding montar_item_def Let_def by simp
next
  case False
  then show ?thesis
    unfolding montar_item_def Let_def
    by (simp add: map_add_def split: option.splits)
qed

lemma herdado_lookup:
  "map_of (case map_of (herdar prev immutable_fields) ''tempo_memoria'' of
             None \<Rightarrow> herdar prev immutable_fields
           | Some tm \<Rightarrow>
               if is_memory_valid e (py_str e tm) then herdar prev immutable_fields
               else filter (\<lambda>kv. fst kv \<noteq> ''tempo_memoria'') (herdar prev immutable_fields)) k =
     (if k \<in> set immutable_fields then
        (case prev k of
           None \<Rightarrow> None
         | Some v \<Rightarrow>
             if truthy v \<and> (k \<noteq> ''tempo_memoria'' \<or> is_memory_valid e (py_str e v))
             then Some v else None)
      else None)"
proof -
  have tm: "''tempo_memoria'' \<in> set immutable_fields"
    by (simp add: immutable_fields_def)
  show ?thesis
  proof (cases "map_of (herdar prev immutable_fields) ''tempo_memoria''")
    case None
    then show ?thesis
      using tm by (auto simp: herdar_lookup split: option.splits if_splits)
  next
    case (Some v)
    then have pv: "prev ''tempo_memoria'' = Some v" "truthy v"
      using tm by (auto simp: herdar_lookup split: option.splits if_splits)
    show ?thesis
    proof (cases "is_memory_valid e (py_str e v)")
      case True
      with Some pv show ?thesis
        by (auto simp: herdar_lookup split: option.splits)
    next
      case False
      with Some pv show ?thesis
        by (auto simp: herdar_lookup map_of_filter_key split: option.splits)
    qed
  qed
qed

lemma immutable_not_base:
  assumes "k \<in> set immutable_fields"
  shows "k \<noteq> ''telefone''" "k \<noteq> ''tempo_sessao''" "k \<noteq> ''session_id''"
    "k \<noteq> ''negociacao_iniciada_em''"
  using assms by (auto simp: immutable_fields_def)

lemma montar_item_lookup:
  "montar_item e (herdar prev immutable_fields) telefone tempo_sessao session_id ini k =
     (if k \<in> set immutable_fields then
        (case prev k of
           None \<Rightarrow> None
         | Some v \<Rightarrow>
             if truthy v \<and> (k \<noteq> ''tempo_memoria'' \<or> is_memory_valid e (py_str e v))
             then Some v else None)
      else if k = ''telefone'' then Some (JStr telefone)
      else if k = ''tempo_sessao'' then Some (JStr tempo_sessao)
      else if k = ''session_id'' then Some (JStr session_id)
      else if k = ''negociacao_iniciada_em'' then
        (case ini of None \<Rightarrow> None | Some s \<Rightarrow> if s = [] then None else Some (JStr s))
      else None)"
proof (cases "k \<in> set immutable_fields")
  case True
  note nb = immutable_not_base [OF True]
  show ?thesis
    unfolding montar_item_alt herdado_lookup
    using True nb by (simp split: option.splits)
next
  case False
  show ?thesis
    unfolding montar_item_alt herdado_lookup
    using False by (simp split: option.splits)
qed

lemma montar_item_keys:
  "montar_item e (herdar prev immutable_fields) telefone tempo_sessao session_id ini
     ''telefone'' = Some (JStr telefone)"
  "montar_item e (herdar prev immutable_fields) telefone tempo_sessao session_id ini
     ''tempo_sessao'' = Some (JStr tempo_sessao)"
  "montar_item e (herdar prev immutable_fields) telefone tempo_sessao session_id ini
     ''session_id'' = Some (JStr session_id)"
proof -
  have "''telefone'' \<notin> set immutable_fields" "''tempo_sessao'' \<notin> set immutable_fields"
    "''session_id'' \<notin> set immutable_fields"
    by (simp_all add: immutable_fields_def)
  then show
    "montar_item e (herdar prev immutable_fields) telefone tempo_sessao session_id ini
       ''telefone'' = Some (JStr telefone)"
    "montar_item e (herdar prev immutable_fields) telefone tempo_sessao session_id ini
       ''tempo_sessao'' = Some (JStr tempo_sessao)"
    "montar_item e (herdar prev immutable_fields) telefone tempo_sessao session_id ini
       ''session_id'' = Some (JStr session_id)"
    unfolding montar_item_lookup by simp_all
qed

lemma get_previous_latest:
  assumes "telefone \<noteq> []" "\<not> negociacao_query_raises e"
    "mais_recente (filter (do_telefone telefone) tbl) = Some prev"
  shows "get_previous_negotiation_data e tbl telefone = herdar prev immutable_fields"
  using assms by (simp add: get_previous_negotiation_data_def query_latest_def)

lemma save_ok:
  assumes "telefone \<noteq> []" "tempo_sessao \<noteq> []" "session_id \<noteq> []"
    "\<not> negociacao_query_raises e" "\<not> negociacao_put_item_raises e"
    "mais_recente (filter (do_telefone telefone) tbl) = Some prev"
  shows "save_session_timestamp_to_negociacao e tbl telefone tempo_sessao session_id ini =
     (True,
      montar_item e (herdar prev immutable_fields) telefone tempo_sessao session_id ini
        # filter (\<lambda>r. \<not> same_key r
            (montar_item e (herdar prev immutable_fields) telefone tempo_sessao session_id ini))
            tbl)"
  using assms(1-5)
  by (simp add: save_session_timestamp_to_negociacao_def get_previous_latest [OF assms(1,4,6)]
      negociacao_put_item_def montar_item_keys)

lemma registro_novo:
  assumes "novo ''telefone'' = Some (JStr telefone)"
    "novo ''tempo_sessao'' = Some (JStr tempo_sessao)"
  shows "registro (novo # rest) telefone tempo_sessao = Some novo"
  using assms by (simp add: registro_def)

lemma strftime_nonempty: "strftime_us d \<noteq> []" "bucket_atual e \<noteq> []"
  by (simp_all add: strftime_us_def strftime_s_def bucket_atual_def pad4_def)

subsection \<open>The session pointer\<close>

lemma lookup_existing:
  assumes "telefone \<noteq> []" "\<not> negociacao_query_raises e"
    "mais_recente (filter (do_telefone telefone) tbl) = Some prev"
    "prev ''tempo_sessao'' = Some (JStr ets)" "prev ''session_id'' = Some (JStr esid)"
    "esid \<noteq> []"
  shows "get_session_timestamp_from_negociacao e tbl telefone = (Some ets, Some esid)"
  using assms
  by (simp add: get_session_timestamp_from_negociacao_def query_latest_def project_def
      py_str_def Let_def)

lemma sessao_existente:
  assumes "telefone \<noteq> []" "\<not> negociacao_query_raises e"
    "mais_recente (filter (do_telefone telefone) tbl) = Some prev"
    "prev ''tempo_sessao'' = Some (JStr ets)" "ets \<noteq> []"
    "prev ''session_id'' = Some (JStr esid)" "esid \<noteq> []"
    "parse_timestamp_to_unix e esid = Inr t"
  shows "get_or_create_session_id e tbl telefone =
     (if py_trunc (timestamp_of (now e)) - t < 3600 then
        (if ets = bucket_atual e
         then (Inr (esid, False), tbl)
         else (Inr (esid, False),
               snd (save_session_timestamp_to_negociacao e tbl telefone
                      (bucket_atual e)
                      esid (Some (strftime_us (now e))))))
      else (Inr (strftime_us (now e), True),
            snd (save_session_timestamp_to_negociacao e tbl telefone
                   (bucket_atual e)
                   (strftime_us (now e)) (Some (strftime_us (now e))))))"
  using assms(1,5,7,8)
  by (simp add: get_or_create_session_id_def lookup_existing [OF assms(1-4,6,7)] Let_def)


text \<open>The table after a save, and its latest row.\<close>

lemma save_registro:
  assumes "telefone \<noteq> []" "tempo_sessao \<noteq> []" "session_id \<noteq> []"
    "\<not> negociacao_query_raises e" "\<not> negociacao_put_item_raises e"
    "mais_recente (filter (do_telefone telefone) tbl) = Some prev"
  shows "registro (snd (save_session_timestamp_to_negociacao e tbl telefone tempo_sessao
            session_id ini)) telefone tempo_sessao
     = Some (montar_item e (herdar prev immutable_fields) telefone tempo_sessao session_id ini)"
  unfolding save_ok [OF assms] snd_conv
  by (rule registro_novo) (simp_all add: montar_item_keys)

lemma save_latest:
  assumes "telefone \<noteq> []" "tempo_sessao \<noteq> []" "session_id \<noteq> []"
    "\<not> negociacao_query_raises e" "\<not> negociacao_put_item_raises e"
    "mais_recente (filter (do_telefone telefone) tbl) = Some prev"
    "sort_key prev \<le> tempo_sessao"
  shows "mais_recente (filter (do_telefone telefone)
            (snd (save_session_timestamp_to_negociacao e tbl telefone tempo_sessao
                    session_id ini)))
     = Some (montar_item e (herdar prev immutable_fields) telefone tempo_sessao session_id ini)"
proof -
  let ?novo = "montar_item e (herdar prev immutable_fields) telefone tempo_sessao session_id ini"
  have sk: "sort_key ?novo = tempo_sessao"
    by (simp add: sort_key_def montar_item_keys)
  have dt: "do_telefone telefone ?novo"
    by (simp add: do_telefone_def montar_item_keys)
  have le: "\<forall>y\<in>set (filter (do_telefone telefone) (filter (\<lambda>r. \<not> same_key r ?novo) tbl)).
      sort_key y \<le> sort_key ?novo"
  proof
    fix y
    assume "y \<in> set (filter (do_telefone telefone) (filter (\<lambda>r. \<not> same_key r ?novo) tbl))"
    then have "y \<in> set (filter (do_telefone telefone) tbl)" by simp
    from mais_recente_max [OF assms(6) this] assms(7) sk
    show "sort_key y \<le> sort_key ?novo" by simp
  qed
  show ?thesis
    unfolding save_ok [OF assms(1-6)] snd_conv
    using dt mais_recente_head [OF le] by simp
qed

subsection \<open>Evaluation of the example ledger\<close>

lemma parse_sessao_exemplo:
  "parse_timestamp_to_unix (env_em h mi s us) ''2024-01-01T10:55:00.000000Z'' = Inr 1704106500"
  by (simp add: parse_timestamp_to_unix_def strip_def py_isspace_def endswith_def suffix_to_prefix
      env_em_def iso_basico_def slice_def int_decimal_def digito_def isdigit_def
      datetime_valid_def days_in_month_def timestamp_of_def toordinal_def days_before_year_def
      days_before_month_def is_leap_def py_trunc_def Let_def)

lemma parse_memoria_exemplo:
  "parse_timestamp_to_unix (env_em h mi s us) ''2023-12-30T09:00:00.000000Z'' = Inr 1703926800"
  by (simp add: parse_timestamp_to_unix_def strip_def py_isspace_def endswith_def suffix_to_prefix
      env_em_def iso_basico_def slice_def int_decimal_def digito_def isdigit_def
      datetime_valid_def days_in_month_def timestamp_of_def toordinal_def days_before_year_def
      days_before_month_def is_leap_def py_trunc_def Let_def)

lemma agora_exemplo:
  "py_trunc (timestamp_of (now (env_em h mi s 0))) = 1704067200 + (h * 3600 + mi * 60 + s)"
proof -
  have "timestamp_of (now (env_em h mi s 0))
      = of_int (1704067200 + (h * 3600 + mi * 60 + s))"
    by (simp add: ts_env_em)
  then show ?thesis
    by (simp only: py_trunc_def floor_of_int ceiling_of_int if_cancel)
qed

lemma strftime_exemplo:
  "strftime_us (now (env_em 11 55 0 0)) = ''2024-01-01T11:55:00.000000Z''"
  "bucket_atual (env_em 11 mi s us) = ''2024-01-01T11:00:00Z''"
  by (simp_all add: strftime_us_def strftime_s_def bucket_atual_def env_em_def pad2_def
      pad4_def pad6_def dig_def)

lemma linha_exemplo_latest:
  "mais_recente (filter (do_telefone cod_exemplo) tabela_exemplo) = Some linha_exemplo"
  by (simp add: tabela_exemplo_def do_telefone_def linha_exemplo_def cod_exemplo_def)

lemma linha_exemplo_campos:
  "linha_exemplo ''tempo_sessao'' = Some (JStr ''2024-01-01T10:00:00Z'')"
  "linha_exemplo ''session_id'' = Some (JStr ''2024-01-01T10:55:00.000000Z'')"
  "linha_exemplo ''tempo_memoria'' = Some (JStr ''2023-12-30T09:00:00.000000Z'')"
  "linha_exemplo ''carga_id'' = Some (JNum 42)"
  "linha_exemplo ''placa_cavalo'' = Some (JStr ''ABC1D23'')"
  "linha_exemplo ''tipo_equipamento_id'' = Some (JNum 0)"
  "linha_exemplo ''placa_equipamento'' = Some (JStr [])"
  "linha_exemplo ''equipamento_ids'' = Some (JList [])"
  "linha_exemplo ''veiculo_cavalo'' = Some (JObj [])"
  "linha_exemplo ''ultima_pergunta'' = Some (JStr ''qual a placa?'')"
  by (simp_all add: linha_exemplo_def)

lemma cod_exemplo_nonempty: "cod_exemplo \<noteq> []"
  by (simp add: cod_exemplo_def)

subsection \<open>Renewal threshold\<close>

text \<open>
  Claim C5: when the latest row of the correspondent holds a session pointer that
  parses to \<open>t\<close>, \<^verbatim>\<open>_get_or_create_session_id\<close> returns a fresh pointer (the clock,
  formatted) with \<^verbatim>\<open>renewed = True\<close> exactly when the age, now minus \<open>t\<close>, is 3600
  seconds or more; below 3600 it returns the existing pointer with
  \<^verbatim>\<open>renewed = False\<close>.
\<close>

theorem session_renewal_threshold:
  assumes "telefone \<noteq> []" "\<not> negociacao_query_raises e"
    "mais_recente (filter (do_telefone telefone) tbl) = Some prev"
    "prev ''tempo_sessao'' = Some (JStr ets)" "ets \<noteq> []"
    "prev ''session_id'' = Some (JStr esid)" "esid \<noteq> []"
    "parse_timestamp_to_unix e esid = Inr t"
  shows "fst (get_or_create_session_id e tbl telefone) =
     (if py_trunc (timestamp_of (now e)) - t \<ge> 3600
      then Inr (strftime_us (now e), True)
      else Inr (esid, False))"
  unfolding sessao_existente [OF assms] by simp

text \<open>
  The theorem on the example ledger (pointer created at 10:55:00): at 11:54:59 the age
  is 3599 and the pointer is reused; at 11:55:00 the age is 3600 and it is renewed.
\<close>

theorem session_renewal_threshold_witness:
  "fst (get_or_create_session_id (env_em 11 54 59 0) tabela_exemplo cod_exemplo)
      = Inr (''2024-01-01T10:55:00.000000Z'', False)
   \<and> fst (get_or_create_session_id (env_em 11 55 0 0) tabela_exemplo cod_exemplo)
      = Inr (''2024-01-01T11:55:00.000000Z'', True)"
proof -
  have q: "\<not> negociacao_query_raises (env_em h mi s us)" for h mi s us
    by (simp add: flags_env_em)
  have ne: "''2024-01-01T10:00:00Z'' \<noteq> []" "''2024-01-01T10:55:00.000000Z'' \<noteq> []"
    by simp_all
  note a = session_renewal_threshold [OF cod_exemplo_nonempty q linha_exemplo_latest
      linha_exemplo_campos(1) ne(1) linha_exemplo_campos(2) ne(2) parse_sessao_exemplo,
      of 11 54 59 0]
  note b = session_renewal_threshold [OF cod_exemplo_nonempty q linha_exemplo_latest
      linha_exemplo_campos(1) ne(1) linha_exemplo_campos(2) ne(2) parse_sessao_exemplo,
      of 11 55 0 0]
  show ?thesis
    using a b by (simp add: agora_exemplo strftime_exemplo)
qed

subsection \<open>Bucket rotation without renewal\<close>

text \<open>
  Claim C6: when the age of the existing session pointer is below 3600 seconds and the
  bucket of the latest row is not the current hour bucket, the call returns the same
  pointer with \<^verbatim>\<open>renewed = False\<close> and persists a row under the current hour bucket
  that carries the same pointer; when the stored bucket is before the current one, that
  row is the latest row of the correspondent.
\<close>

theorem bucket_rotation_without_renewal:
  assumes "telefone \<noteq> []" "\<not> negociacao_query_raises e"
    "mais_recente (filter (do_telefone telefone) tbl) = Some prev"
    "prev ''tempo_sessao'' = Some (JStr ets)" "ets \<noteq> []"
    "prev ''session_id'' = Some (JStr esid)" "esid \<noteq> []"
    "parse_timestamp_to_unix e esid = Inr t"
    and "py_trunc (timestamp_of (now e)) - t < 3600"
    and "ets \<noteq> bucket_atual e"
    and "\<not> negociacao_put_item_raises e"
  shows "fst (get_or_create_session_id e tbl telefone) = Inr (esid, False)
     \<and> (\<exists>novo. registro (snd (get_or_create_session_id e tbl telefone)) telefone
                  (bucket_atual e) = Some novo
          \<and> novo ''tempo_sessao'' = Some (JStr (bucket_atual e))
          \<and> novo ''session_id'' = Some (JStr esid)
          \<and> (ets < bucket_atual e \<longrightarrow>
               mais_recente (filter (do_telefone telefone)
                 (snd (get_or_create_session_id e tbl telefone))) = Some novo))"
proof -
  let ?novo = "montar_item e (herdar prev immutable_fields) telefone (bucket_atual e) esid
      (Some (strftime_us (now e)))"
  note sv = assms(1) strftime_nonempty(2) assms(7,2,11,3)
  have r: "get_or_create_session_id e tbl telefone =
      (Inr (esid, False),
       snd (save_session_timestamp_to_negociacao e tbl telefone (bucket_atual e) esid
              (Some (strftime_us (now e)))))"
    unfolding sessao_existente [OF assms(1-8)] using assms(9,10) by simp
  have sk: "sort_key prev = ets"
    by (simp add: sort_key_def assms(4))
  have "ets < bucket_atual e \<Longrightarrow>
      mais_recente (filter (do_telefone telefone)
        (snd (get_or_create_session_id e tbl telefone))) = Some ?novo"
    unfolding r snd_conv by (rule save_latest [OF sv]) (simp add: sk)
  moreover have "registro (snd (get_or_create_session_id e tbl telefone)) telefone
      (bucket_atual e) = Some ?novo"
    unfolding r snd_conv by (rule save_registro [OF sv])
  ultimately show ?thesis
    using r by (auto simp: montar_item_keys)
qed

text \<open>
  The theorem on the scenario of the specification: pointer created at 10:55, message
  at 11:05 (age 600 seconds). The pointer is kept and the latest row is in the bucket
  of 11:00.
\<close>

theorem bucket_rotation_without_renewal_witness:
  "fst (get_or_create_session_id (env_em 11 5 0 0) tabela_exemplo cod_exemplo)
      = Inr (''2024-01-01T10:55:00.000000Z'', False)
   \<and> (\<exists>novo. mais_recente (filter (do_telefone cod_exemplo)
          (snd (get_or_create_session_id (env_em 11 5 0 0) tabela_exemplo cod_exemplo)))
        = Some novo
      \<and> novo ''tempo_sessao'' = Some (JStr ''2024-01-01T11:00:00Z'')
      \<and> novo ''session_id'' = Some (JStr ''2024-01-01T10:55:00.000000Z''))"
proof -
  have q: "\<not> negociacao_query_raises (env_em 11 5 0 0)"
    and p: "\<not> negociacao_put_item_raises (env_em 11 5 0 0)"
    by (simp_all add: flags_env_em)
  have ne: "''2024-01-01T10:00:00Z'' \<noteq> []" "''2024-01-01T10:55:00.000000Z'' \<noteq> []"
    by simp_all
  have age: "py_trunc (timestamp_of (now (env_em 11 5 0 0))) - 1704106500 < 3600"
    by (simp add: agora_exemplo)
  have ch: "''2024-01-01T10:00:00Z'' \<noteq> bucket_atual (env_em 11 5 0 0)"
    by (simp add: strftime_exemplo)
  have lt: "''2024-01-01T10:00:00Z'' < bucket_atual (env_em 11 5 0 0)"
    by (simp add: strftime_exemplo)
  from bucket_rotation_without_renewal [OF cod_exemplo_nonempty q linha_exemplo_latest
      linha_exemplo_campos(1) ne(1) linha_exemplo_campos(2) ne(2) parse_sessao_exemplo
      age ch p] lt
  show ?thesis
    by (auto simp: strftime_exemplo)
qed


subsection \<open>Renewal and the inherited facts\<close>

text \<open>The call on an expired session pointer, and the row it persists.\<close>

lemma renovacao:
  assumes "telefone \<noteq> []" "\<not> negociacao_query_raises e"
    "mais_recente (filter (do_telefone telefone) tbl) = Some prev"
    "prev ''tempo_sessao'' = Some (JStr ets)" "ets \<noteq> []"
    "prev ''session_id'' = Some (JStr esid)" "esid \<noteq> []"
    "parse_timestamp_to_unix e esid = Inr t"
    and "py_trunc (timestamp_of (now e)) - t \<ge> 3600"
    and "\<not> negociacao_put_item_raises e"
  shows "fst (get_or_create_session_id e tbl telefone) = Inr (strftime_us (now e), True)"
    and "registro (snd (get_or_create_session_id e tbl telefone)) telefone (bucket_atual e)
      = Some (montar_item e (herdar prev immutable_fields) telefone (bucket_atual e)
                (strftime_us (now e)) (Some (strftime_us (now e))))"
proof -
  note sv = assms(1) strftime_nonempty(2) strftime_nonempty(1) assms(2,10,3)
  have r: "get_or_create_session_id e tbl telefone =
      (Inr (strftime_us (now e), True),
       snd (save_session_timestamp_to_negociacao e tbl telefone (bucket_atual e)
              (strftime_us (now e)) (Some (strftime_us (now e)))))"
    unfolding sessao_existente [OF assms(1-8)] using assms(9) by simp
  show "fst (get_or_create_session_id e tbl telefone) = Inr (strftime_us (now e), True)"
    using r by simp
  show "registro (snd (get_or_create_session_id e tbl telefone)) telefone (bucket_atual e)
      = Some (montar_item e (herdar prev immutable_fields) telefone (bucket_atual e)
                (strftime_us (now e)) (Some (strftime_us (now e))))"
    unfolding r snd_conv by (rule save_registro [OF sv])
qed

lemma parse_nonempty: "parse_timestamp_to_unix e s = Inr t \<Longrightarrow> s \<noteq> []"
  by (auto simp: parse_timestamp_to_unix_def)

text \<open>
  Claim C7, as the code has it: after a renewal, every allow-listed immutable fact
  (cargo id, vehicle and equipment ids and snapshots, type ids, plates) that the prior
  latest row holds with a truthy value is in the new row with the same value, and the
  new row has no attribute outside the allow-list other than its own four
  (\<^verbatim>\<open>telefone\<close>, \<^verbatim>\<open>tempo_sessao\<close>, \<^verbatim>\<open>session_id\<close>, \<^verbatim>\<open>negociacao_iniciada_em\<close>).
\<close>

theorem renewal_inherits_truthy_facts:
  assumes "telefone \<noteq> []" "\<not> negociacao_query_raises e"
    "mais_recente (filter (do_telefone telefone) tbl) = Some prev"
    "prev ''tempo_sessao'' = Some (JStr ets)" "ets \<noteq> []"
    "prev ''session_id'' = Some (JStr esid)" "esid \<noteq> []"
    "parse_timestamp_to_unix e esid = Inr t"
    and "py_trunc (timestamp_of (now e)) - t \<ge> 3600"
    and "\<not> negociacao_put_item_raises e"
  shows "fst (get_or_create_session_id e tbl telefone) = Inr (strftime_us (now e), True)
     \<and> (\<exists>novo. registro (snd (get_or_create_session_id e tbl telefone)) telefone
                  (bucket_atual e) = Some novo
          \<and> (\<forall>f\<in>set immutable_fields. \<forall>v.
                 f \<noteq> ''tempo_memoria'' \<and> prev f = Some v \<and> truthy v \<longrightarrow> novo f = Some v)
          \<and> (\<forall>k. k \<notin> set immutable_fields
                 \<and> k \<notin> {''telefone'', ''tempo_sessao'', ''session_id'',
                          ''negociacao_iniciada_em''}
                 \<longrightarrow> novo k = None))"
proof -
  let ?novo = "montar_item e (herdar prev immutable_fields) telefone (bucket_atual e)
      (strftime_us (now e)) (Some (strftime_us (now e)))"
  have "\<forall>f\<in>set immutable_fields. \<forall>v.
      f \<noteq> ''tempo_memoria'' \<and> prev f = Some v \<and> truthy v \<longrightarrow> ?novo f = Some v"
    by (simp add: montar_item_lookup)
  moreover have "\<forall>k. k \<notin> set immutable_fields
      \<and> k \<notin> {''telefone'', ''tempo_sessao'', ''session_id'', ''negociacao_iniciada_em''}
      \<longrightarrow> ?novo k = None"
    by (simp add: montar_item_lookup)
  ultimately show ?thesis
    using renovacao [OF assms] by blast
qed

text \<open>
  The theorem on the example ledger at 11:55:00: the cargo id 42 and the plate are in
  the new row, and the field \<^verbatim>\<open>ultima_pergunta\<close>, which is not on the allow-list, is
  not.
\<close>

theorem renewal_inherits_truthy_facts_witness:
  "fst (get_or_create_session_id (env_em 11 55 0 0) tabela_exemplo cod_exemplo)
      = Inr (''2024-01-01T11:55:00.000000Z'', True)
   \<and> (\<exists>novo. registro (snd (get_or_create_session_id (env_em 11 55 0 0) tabela_exemplo
          cod_exemplo)) cod_exemplo ''2024-01-01T11:00:00Z'' = Some novo
      \<and> novo ''carga_id'' = Some (JNum 42)
      \<and> novo ''placa_cavalo'' = Some (JStr ''ABC1D23'')
      \<and> novo ''ultima_pergunta'' = None)"
proof -
  have q: "\<not> negociacao_query_raises (env_em 11 55 0 0)"
    and p: "\<not> negociacao_put_item_raises (env_em 11 55 0 0)"
    by (simp_all add: flags_env_em)
  have ne: "''2024-01-01T10:00:00Z'' \<noteq> []" "''2024-01-01T10:55:00.000000Z'' \<noteq> []"
    by simp_all
  have age: "py_trunc (timestamp_of (now (env_em 11 55 0 0))) - 1704106500 \<ge> 3600"
    by (simp add: agora_exemplo)
  have f: "''carga_id'' \<in> set immutable_fields" "''placa_cavalo'' \<in> set immutable_fields"
    "''ultima_pergunta'' \<notin> set immutable_fields"
    by (simp_all add: immutable_fields_def)
  note th = renewal_inherits_truthy_facts [OF cod_exemplo_nonempty q linha_exemplo_latest
      linha_exemplo_campos(1) ne(1) linha_exemplo_campos(2) ne(2) parse_sessao_exemplo age p]
  from th have r: "fst (get_or_create_session_id (env_em 11 55 0 0) tabela_exemplo cod_exemplo)
        = Inr (strftime_us (now (env_em 11 55 0 0)), True)"
    by (rule conjunct1)
  from th have "\<exists>novo. registro (snd (get_or_create_session_id (env_em 11 55 0 0)
        tabela_exemplo cod_exemplo)) cod_exemplo (bucket_atual (env_em 11 55 0 0)) = Some novo
      \<and> (\<forall>f\<in>set immutable_fields. \<forall>v.
             f \<noteq> ''tempo_memoria'' \<and> linha_exemplo f = Some v \<and> truthy v \<longrightarrow> novo f = Some v)
      \<and> (\<forall>k. k \<notin> set immutable_fields
             \<and> k \<notin> {''telefone'', ''tempo_sessao'', ''session_id'',
                      ''negociacao_iniciada_em''}
             \<longrightarrow> novo k = None)"
    by (rule conjunct2)
  then obtain novo where all: "registro (snd (get_or_create_session_id (env_em 11 55 0 0)
        tabela_exemplo cod_exemplo)) cod_exemplo (bucket_atual (env_em 11 55 0 0)) = Some novo
      \<and> (\<forall>f\<in>set immutable_fields. \<forall>v.
             f \<noteq> ''tempo_memoria'' \<and> linha_exemplo f = Some v \<and> truthy v \<longrightarrow> novo f = Some v)
      \<and> (\<forall>k. k \<notin> set immutable_fields
             \<and> k \<notin> {''telefone'', ''tempo_sessao'', ''session_id'',
                      ''negociacao_iniciada_em''}
             \<longrightarrow> novo k = None)" ..
  note n = all [THEN conjunct1]
  note keep = all [THEN conjunct2, THEN conjunct1]
  note drop = all [THEN conjunct2, THEN conjunct2]
  have c1: "novo ''carga_id'' = Some (JNum 42)"
    using bspec [OF keep f(1)] linha_exemplo_campos(4) by simp
  have c2: "novo ''placa_cavalo'' = Some (JStr ''ABC1D23'')"
    using bspec [OF keep f(2)] linha_exemplo_campos(5) by simp
  have c3: "novo ''ultima_pergunta'' = None"
    using spec [OF drop, of "''ultima_pergunta''"] f(3) by simp
  have "registro (snd (get_or_create_session_id (env_em 11 55 0 0) tabela_exemplo
          cod_exemplo)) cod_exemplo ''2024-01-01T11:00:00Z'' = Some novo
      \<and> novo ''carga_id'' = Some (JNum 42)
      \<and> novo ''placa_cavalo'' = Some (JStr ''ABC1D23'')
      \<and> novo ''ultima_pergunta'' = None"
    using n c1 c2 c3 by (simp add: strftime_exemplo)
  then have "\<exists>novo. registro (snd (get_or_create_session_id (env_em 11 55 0 0) tabela_exemplo
          cod_exemplo)) cod_exemplo ''2024-01-01T11:00:00Z'' = Some novo
      \<and> novo ''carga_id'' = Some (JNum 42)
      \<and> novo ''placa_cavalo'' = Some (JStr ''ABC1D23'')
      \<and> novo ''ultima_pergunta'' = None"
    by (rule exI [of _ novo])
  moreover from r
  have "fst (get_or_create_session_id (env_em 11 55 0 0) tabela_exemplo cod_exemplo)
      = Inr (''2024-01-01T11:55:00.000000Z'', True)"
    by (simp add: strftime_exemplo)
  ultimately show ?thesis by (rule conjI [rotated])
qed

text \<open>
  Claim C7 as stated fails: the prior latest row of the example holds the allow-listed
  fact \<^verbatim>\<open>equipamento_ids\<close> with the empty list as its value; after the renewal at
  11:55:00 the new row does not have the attribute.
\<close>

theorem renewal_drops_falsy_fact_counterexample:
  "mais_recente (filter (do_telefone cod_exemplo) tabela_exemplo) = Some linha_exemplo
   \<and> ''equipamento_ids'' \<in> set immutable_fields
   \<and> linha_exemplo ''equipamento_ids'' = Some (JList [])
   \<and> fst (get_or_create_session_id (env_em 11 55 0 0) tabela_exemplo cod_exemplo)
      = Inr (''2024-01-01T11:55:00.000000Z'', True)
   \<and> map_option (\<lambda>novo. novo ''equipamento_ids'')
        (registro (snd (get_or_create_session_id (env_em 11 55 0 0) tabela_exemplo
           cod_exemplo)) cod_exemplo ''2024-01-01T11:00:00Z'') = Some None"
proof -
  have q: "\<not> negociacao_query_raises (env_em 11 55 0 0)"
    and p: "\<not> negociacao_put_item_raises (env_em 11 55 0 0)"
    by (simp_all add: flags_env_em)
  have ne: "''2024-01-01T10:00:00Z'' \<noteq> []" "''2024-01-01T10:55:00.000000Z'' \<noteq> []"
    by simp_all
  have age: "py_trunc (timestamp_of (now (env_em 11 55 0 0))) - 1704106500 \<ge> 3600"
    by (simp add: agora_exemplo)
  have f: "''equipamento_ids'' \<in> set immutable_fields"
    by (simp add: immutable_fields_def)
  note r = renovacao [OF cod_exemplo_nonempty q linha_exemplo_latest
      linha_exemplo_campos(1) ne(1) linha_exemplo_campos(2) ne(2) parse_sessao_exemplo age p]
  have "map_option (\<lambda>novo. novo ''equipamento_ids'')
        (registro (snd (get_or_create_session_id (env_em 11 55 0 0) tabela_exemplo
           cod_exemplo)) cod_exemplo (bucket_atual (env_em 11 55 0 0))) = Some None"
    unfolding r(2) using f by (simp add: montar_item_lookup linha_exemplo_campos)
  then show ?thesis
    using r(1) f by (simp add: strftime_exemplo linha_exemplo_latest linha_exemplo_campos)
qed

subsection \<open>The memory pointer across a renewal\<close>

text \<open>
  Claim C8: when the prior latest row holds a \<^verbatim>\<open>tempo_memoria\<close> that parses to a time
  less than 604800 seconds before now, the row persisted by the renewal of the session
  pointer carries the same \<^verbatim>\<open>tempo_memoria\<close> value.
\<close>

theorem renewal_keeps_valid_memory:
  assumes "telefone \<noteq> []" "\<not> negociacao_query_raises e"
    "mais_recente (filter (do_telefone telefone) tbl) = Some prev"
    "prev ''tempo_sessao'' = Some (JStr ets)" "ets \<noteq> []"
    "prev ''session_id'' = Some (JStr esid)" "esid \<noteq> []"
    "parse_timestamp_to_unix e esid = Inr t"
    and "py_trunc (timestamp_of (now e)) - t \<ge> 3600"
    and "\<not> negociacao_put_item_raises e"
    and "prev ''tempo_memoria'' = Some (JStr tm)"
    and "parse_timestamp_to_unix e tm = Inr tmem"
    and "py_trunc (timestamp_of (now e)) - tmem < 604800"
  shows "fst (get_or_create_session_id e tbl telefone) = Inr (strftime_us (now e), True)
     \<and> (\<exists>novo. registro (snd (get_or_create_session_id e tbl telefone)) telefone
                  (bucket_atual e) = Some novo
          \<and> novo ''tempo_memoria'' = Some (JStr tm))"
proof -
  let ?novo = "montar_item e (herdar prev immutable_fields) telefone (bucket_atual e)
      (strftime_us (now e)) (Some (strftime_us (now e)))"
  have ne: "tm \<noteq> []"
    by (rule parse_nonempty [OF assms(12)])
  have valid: "is_memory_valid e tm"
    using ne assms(12,13) by (simp add: is_memory_valid_def)
  have f: "''tempo_memoria'' \<in> set immutable_fields"
    by (simp add: immutable_fields_def)
  have "?novo ''tempo_memoria'' = Some (JStr tm)"
    using f ne valid assms(11) by (simp add: montar_item_lookup py_str_def)
  then show ?thesis
    using renovacao [OF assms(1-10)] by blast
qed

text \<open>
  The theorem on the example ledger: at the renewal of 11:55:00 on 1 January the memory
  pointer of 30 December, 09:00:00, is two days old and is carried unchanged.
\<close>

theorem renewal_keeps_valid_memory_witness:
  "fst (get_or_create_session_id (env_em 11 55 0 0) tabela_exemplo cod_exemplo)
      = Inr (''2024-01-01T11:55:00.000000Z'', True)
   \<and> (\<exists>novo. registro (snd (get_or_create_session_id (env_em 11 55 0 0) tabela_exemplo
          cod_exemplo)) cod_exemplo ''2024-01-01T11:00:00Z'' = Some novo
      \<and> novo ''tempo_memoria'' = Some (JStr ''2023-12-30T09:00:00.000000Z''))"
proof -
  have q: "\<not> negociacao_query_raises (env_em 11 55 0 0)"
    and p: "\<not> negociacao_put_item_raises (env_em 11 55 0 0)"
    by (simp_all add: flags_env_em)
  have ne: "''2024-01-01T10:00:00Z'' \<noteq> []" "''2024-01-01T10:55:00.000000Z'' \<noteq> []"
    by simp_all
  have age: "py_trunc (timestamp_of (now (env_em 11 55 0 0))) - 1704106500 \<ge> 3600"
    by (simp add: agora_exemplo)
  have mem: "py_trunc (timestamp_of (now (env_em 11 55 0 0))) - 1703926800 < 604800"
    by (simp add: agora_exemplo)
  from renewal_keeps_valid_memory [OF cod_exemplo_nonempty q linha_exemplo_latest
      linha_exemplo_campos(1) ne(1) linha_exemplo_campos(2) ne(2) parse_sessao_exemplo age p
      linha_exemplo_campos(3) parse_memoria_exemplo mem]
  show ?thesis
    by (simp add: strftime_exemplo)
qed

subsection \<open>Falsy facts are dropped\<close>

text \<open>
  Claim C10: fact inheritance copies an allow-listed field only when its value in the
  prior row is truthy. For every field of the allow-list, the inherited data hold it
  exactly when the prior row holds it with a truthy value; on a renewal, a field that
  the prior row holds with a falsy value (0, the empty string, the empty list, the
  empty object) is absent from the new row, and a field of the new row has the truthy
  value of the prior row.
\<close>

theorem inheritance_requires_truthy:
  assumes "telefone \<noteq> []" "\<not> negociacao_query_raises e"
    "mais_recente (filter (do_telefone telefone) tbl) = Some prev"
    "prev ''tempo_sessao'' = Some (JStr ets)" "ets \<noteq> []"
    "prev ''session_id'' = Some (JStr esid)" "esid \<noteq> []"
    "parse_timestamp_to_unix e esid = Inr t"
    and "py_trunc (timestamp_of (now e)) - t \<ge> 3600"
    and "\<not> negociacao_put_item_raises e"
    and "f \<in> set immutable_fields"
  shows "map_of (get_previous_negotiation_data e tbl telefone) f
       = (case prev f of None \<Rightarrow> None | Some v \<Rightarrow> if truthy v then Some v else None)
     \<and> truthy (JNum 0) = False \<and> truthy (JStr []) = False
     \<and> truthy (JList []) = False \<and> truthy (JObj []) = False
     \<and> (\<exists>novo. registro (snd (get_or_create_session_id e tbl telefone)) telefone
                  (bucket_atual e) = Some novo
          \<and> (\<forall>v. prev f = Some v \<and> \<not> truthy v \<longrightarrow> novo f = None)
          \<and> (\<forall>v. novo f = Some v \<longrightarrow> prev f = Some v \<and> truthy v))"
proof -
  let ?novo = "montar_item e (herdar prev immutable_fields) telefone (bucket_atual e)
      (strftime_us (now e)) (Some (strftime_us (now e)))"
  have a: "map_of (get_previous_negotiation_data e tbl telefone) f
       = (case prev f of None \<Rightarrow> None | Some v \<Rightarrow> if truthy v then Some v else None)"
    unfolding get_previous_latest [OF assms(1-3)] herdar_lookup using assms(11) by simp
  have lk: "?novo f =
      (case prev f of
         None \<Rightarrow> None
       | Some v \<Rightarrow>
           if truthy v \<and> (f \<noteq> ''tempo_memoria'' \<or> is_memory_valid e (py_str e v))
           then Some v else None)"
    unfolding montar_item_lookup using assms(11) by simp
  have b: "\<forall>v. prev f = Some v \<and> \<not> truthy v \<longrightarrow> ?novo f = None"
    unfolding lk by simp
  have c: "\<forall>v. ?novo f = Some v \<longrightarrow> prev f = Some v \<and> truthy v"
    unfolding lk by (cases "prev f") (simp_all split: if_splits)
  have ex: "\<exists>novo. registro (snd (get_or_create_session_id e tbl telefone)) telefone
                  (bucket_atual e) = Some novo
          \<and> (\<forall>v. prev f = Some v \<and> \<not> truthy v \<longrightarrow> novo f = None)
          \<and> (\<forall>v. novo f = Some v \<longrightarrow> prev f = Some v \<and> truthy v)"
    by (rule exI [of _ ?novo]) (intro conjI renovacao(2) [OF assms(1-10)] b c)
  have t: "truthy (JNum 0) = False" "truthy (JStr []) = False"
    "truthy (JList []) = False" "truthy (JObj []) = False"
    by simp_all
  show ?thesis
    by (intro conjI a t ex)
qed


text \<open>
  The theorem on the example ledger, whose row holds \<^verbatim>\<open>tipo_equipamento_id = 0\<close>, an
  empty \<^verbatim>\<open>placa_equipamento\<close>, an empty list of \<^verbatim>\<open>equipamento_ids\<close> and an empty
  \<^verbatim>\<open>veiculo_cavalo\<close> object: none of the four is in the row of the renewal.
\<close>

theorem inheritance_requires_truthy_witness:
  "\<exists>novo. registro (snd (get_or_create_session_id (env_em 11 55 0 0) tabela_exemplo
          cod_exemplo)) cod_exemplo ''2024-01-01T11:00:00Z'' = Some novo
      \<and> novo ''tipo_equipamento_id'' = None \<and> novo ''placa_equipamento'' = None
      \<and> novo ''equipamento_ids'' = None \<and> novo ''veiculo_cavalo'' = None"
proof -
  have q: "\<not> negociacao_query_raises (env_em 11 55 0 0)"
    and p: "\<not> negociacao_put_item_raises (env_em 11 55 0 0)"
    by (simp_all add: flags_env_em)
  have ne: "''2024-01-01T10:00:00Z'' \<noteq> []" "''2024-01-01T10:55:00.000000Z'' \<noteq> []"
    by simp_all
  have age: "py_trunc (timestamp_of (now (env_em 11 55 0 0))) - 1704106500 \<ge> 3600"
    by (simp add: agora_exemplo)
  have f: "''tipo_equipamento_id'' \<in> set immutable_fields"
    "''placa_equipamento'' \<in> set immutable_fields"
    "''equipamento_ids'' \<in> set immutable_fields"
    "''veiculo_cavalo'' \<in> set immutable_fields"
    by (simp_all add: immutable_fields_def)
  note th = inheritance_requires_truthy [OF cod_exemplo_nonempty q linha_exemplo_latest
      linha_exemplo_campos(1) ne(1) linha_exemplo_campos(2) ne(2) parse_sessao_exemplo age p]
  note r = renovacao(2) [OF cod_exemplo_nonempty q linha_exemplo_latest
      linha_exemplo_campos(1) ne(1) linha_exemplo_campos(2) ne(2) parse_sessao_exemplo age p]
  have d: "novo f = None"
    if "f \<in> set immutable_fields" and "linha_exemplo f = Some v" and "\<not> truthy v"
      and "registro (snd (get_or_create_session_id (env_em 11 55 0 0) tabela_exemplo
          cod_exemplo)) cod_exemplo (bucket_atual (env_em 11 55 0 0)) = Some novo"
    for f v novo
  proof -
    from th [OF that(1)]
    have "\<exists>n. registro (snd (get_or_create_session_id (env_em 11 55 0 0) tabela_exemplo
          cod_exemplo)) cod_exemplo (bucket_atual (env_em 11 55 0 0)) = Some n
        \<and> (\<forall>v. linha_exemplo f = Some v \<and> \<not> truthy v \<longrightarrow> n f = None)
        \<and> (\<forall>v. n f = Some v \<longrightarrow> linha_exemplo f = Some v \<and> truthy v)"
      by (elim conjE)
    then obtain n where n: "registro (snd (get_or_create_session_id (env_em 11 55 0 0)
          tabela_exemplo cod_exemplo)) cod_exemplo (bucket_atual (env_em 11 55 0 0)) = Some n
        \<and> (\<forall>v. linha_exemplo f = Some v \<and> \<not> truthy v \<longrightarrow> n f = None)
        \<and> (\<forall>v. n f = Some v \<longrightarrow> linha_exemplo f = Some v \<and> truthy v)" ..
    from n that(4) have "n = novo" by simp
    with n that(2,3) show ?thesis by simp
  qed
  let ?novo = "montar_item (env_em 11 55 0 0) (herdar linha_exemplo immutable_fields)
      cod_exemplo (bucket_atual (env_em 11 55 0 0)) (strftime_us (now (env_em 11 55 0 0)))
      (Some (strftime_us (now (env_em 11 55 0 0))))"
  have "registro (snd (get_or_create_session_id (env_em 11 55 0 0) tabela_exemplo
          cod_exemplo)) cod_exemplo ''2024-01-01T11:00:00Z'' = Some ?novo
      \<and> ?novo ''tipo_equipamento_id'' = None \<and> ?novo ''placa_equipamento'' = None
      \<and> ?novo ''equipamento_ids'' = None \<and> ?novo ''veiculo_cavalo'' = None"
    using r d [OF f(1) linha_exemplo_campos(6) _ r] d [OF f(2) linha_exemplo_campos(7) _ r]
      d [OF f(3) linha_exemplo_campos(8) _ r] d [OF f(4) linha_exemplo_campos(9) _ r]
    by (simp add: strftime_exemplo(2))
  then show ?thesis
    by (rule exI [of _ ?novo])
qed


section \<open>Contact normalization is idempotent\<close>

lemma all_digits_filter: "\<forall>ch\<in>set s. isdigit ch \<Longrightarrow> filter isdigit s = s"
  by (simp add: filter_id_conv)

lemma normalizar_all_digits:
  assumes "\<forall>ch\<in>set c. isdigit ch"
  shows "normalizar_telefone c =
     (if startswith c ''55'' \<and> length c = 13 then c
      else if length c = 11 then ''55'' @ c
      else if length c > 13 \<and> take 2 (drop (length c - 13) c) = ''55''
        then drop (length c - 13) c
      else c)"
  using assms
  by (auto simp: normalizar_telefone_def all_digits_filter Let_def slice_neg_def slice_last_def
        endswith_def suffix_drop)

lemma isdigit_55: "isdigit CHR ''5''"
  by (simp add: isdigit_def)

lemma prefix_55_take: "prefix ''55'' s \<longleftrightarrow> take 2 s = ''55''"
  by (cases s; cases "tl s") (auto simp: numeral_2_eq_2)

lemma normalizar_fixed:
  assumes "\<forall>ch\<in>set c. isdigit ch"
  shows "normalizar_telefone (normalizar_telefone c) = normalizar_telefone c"
proof -
  let ?r = "normalizar_telefone c"
  have r: "?r =
     (if startswith c ''55'' \<and> length c = 13 then c
      else if length c = 11 then ''55'' @ c
      else if length c > 13 \<and> take 2 (drop (length c - 13) c) = ''55''
        then drop (length c - 13) c
      else c)" (is "_ = ?rhs")
    by (rule normalizar_all_digits [OF assms])
  have d: "\<forall>ch\<in>set ?r. isdigit ch"
    unfolding r using assms by (auto simp: isdigit_55 dest: in_set_dropD)
  show ?thesis
    unfolding normalizar_all_digits [OF d]
    unfolding r
    by (auto simp: startswith_def prefix_55_take)
qed

lemma normalizar_filter: "normalizar_telefone x = normalizar_telefone (filter isdigit x)"
  by (simp add: normalizar_telefone_def Let_def)

text \<open>
  Claim C9: contact normalization is idempotent. For every input string \<open>x\<close>,
  normalizing the normalized string gives the normalized string again.
\<close>

theorem normalizar_telefone_idempotent:
  "normalizar_telefone (normalizar_telefone x) = normalizar_telefone x"
proof -
  have "\<forall>ch\<in>set (filter isdigit x). isdigit ch" by simp
  then have "normalizar_telefone (normalizar_telefone (filter isdigit x))
      = normalizar_telefone (filter isdigit x)"
    by (rule normalizar_fixed)
  then show ?thesis
    using normalizar_filter [of x] by simp
qed

theorem normalizar_telefone_idempotent_witness:
  "normalizar_telefone (normalizar_telefone ''+55 (11) 99999-0000'') = ''5511999990000''
   \<and> normalizar_telefone (normalizar_telefone ''(11) 99999-0000'') = ''5511999990000''"
  using normalizar_telefone_idempotent [of "''+55 (11) 99999-0000''"]
    normalizar_telefone_idempotent [of "''(11) 99999-0000''"]
  by (simp add: normalizar_telefone_def isdigit_def startswith_def)


end
